theory Spec2Isabelle
  imports Complex_Main "HOL-Library.Sublist"
begin

section \<open>JavaScript values and the built-ins the components use\<close>

text \<open>
  The engine (web-ifc) hands the components loosely typed objects. They are modelled by
  \<open>jsval\<close>: an object is the list of its own enumerable properties in the order
  \<^verbatim>\<open>Object.entries\<close> reports them, an array is the list of its items. A number is a finite
  value (every finite double is a rational), \<open>NaN\<close> or an infinity; the components never
  compute with numbers, they only convert and copy them.
\<close>

datatype jsnum = Fin rat | NaN | Infinity bool

datatype jsval = JUndefined | JNull | JBool bool | JNum jsnum | JStr string
  | JArr "jsval list" | JObj "(string \<times> jsval) list"

text \<open>
  Two conversions of the language are left to the environment: reading a number from a
  string (\<^verbatim>\<open>Number("12.5")\<close>) and printing a number (\<^verbatim>\<open>String(12.5)\<close>). Both are fixed
  functions of the JavaScript engine; the model takes them as a parameter record.
\<close>

record jsenv =
  StringToNumber :: "string \<Rightarrow> jsnum"
  NumberToString :: "jsnum \<Rightarrow> string"

datatype error = TypeError | EngineError string

text \<open>
  \<open>get v k\<close> is the property read \<^verbatim>\<open>v.k\<close> for the property names the components use
  (none of which is inherited or is \<^verbatim>\<open>length\<close>): the stored value for an object that has
  the property, \<^verbatim>\<open>undefined\<close> otherwise. On \<^verbatim>\<open>null\<close> and \<^verbatim>\<open>undefined\<close> the read raises a
  TypeError in JavaScript; each unguarded read in the source is therefore preceded in the
  model by a test with \<open>nullish\<close>.
\<close>

definition get :: "jsval \<Rightarrow> string \<Rightarrow> jsval" where
  "get v k = (case v of
       JObj fs \<Rightarrow> (case map_of fs k of Some x \<Rightarrow> x | None \<Rightarrow> JUndefined)
     | _ \<Rightarrow> JUndefined)"

definition nullish :: "jsval \<Rightarrow> bool" where
  "nullish v = (v = JUndefined \<or> v = JNull)"

text \<open>\<^verbatim>\<open>"k" in v\<close> for an object \<open>v\<close>.\<close>

definition has_key :: "jsval \<Rightarrow> string \<Rightarrow> bool" where
  "has_key v k = (case v of JObj fs \<Rightarrow> k \<in> fst ` set fs | _ \<Rightarrow> False)"

fun truthy :: "jsval \<Rightarrow> bool" where
  "truthy JUndefined = False"
| "truthy JNull = False"
| "truthy (JBool b) = b"
| "truthy (JNum n) = (n \<noteq> NaN \<and> n \<noteq> Fin 0)"
| "truthy (JStr s) = (s \<noteq> [])"
| "truthy (JArr xs) = True"
| "truthy (JObj fs) = True"

fun typeof :: "jsval \<Rightarrow> string" where
  "typeof JUndefined = ''undefined''"
| "typeof JNull = ''object''"
| "typeof (JBool b) = ''boolean''"
| "typeof (JNum n) = ''number''"
| "typeof (JStr s) = ''string''"
| "typeof (JArr xs) = ''object''"
| "typeof (JObj fs) = ''object''"

definition isArray :: "jsval \<Rightarrow> bool" where
  "isArray v = (case v of JArr xs \<Rightarrow> True | _ \<Rightarrow> False)"

fun join_comma :: "string list \<Rightarrow> string" where
  "join_comma [] = []"
| "join_comma [s] = s"
| "join_comma (s # t # ss) = s @ '','' @ join_comma (t # ss)"

fun String_js :: "jsenv \<Rightarrow> jsval \<Rightarrow> string" where
  "String_js E JUndefined = ''undefined''"
| "String_js E JNull = ''null''"
| "String_js E (JBool b) = (if b then ''true'' else ''false'')"
| "String_js E (JNum n) = NumberToString E n"
| "String_js E (JStr s) = s"
| "String_js E (JArr xs) =
     join_comma (map (\<lambda>x. if x = JUndefined \<or> x = JNull then [] else String_js E x) xs)"
| "String_js E (JObj fs) = ''[object Object]''"

fun Number_js :: "jsenv \<Rightarrow> jsval \<Rightarrow> jsnum" where
  "Number_js E JUndefined = NaN"
| "Number_js E JNull = Fin 0"
| "Number_js E (JBool b) = (if b then Fin 1 else Fin 0)"
| "Number_js E (JNum n) = n"
| "Number_js E (JStr s) = StringToNumber E s"
| "Number_js E (JArr xs) = StringToNumber E (String_js E (JArr xs))"
| "Number_js E (JObj fs) = NaN"

text \<open>\<^verbatim>\<open>s.includes(sub)\<close>: \<open>sub\<close> occurs in \<open>s\<close> as a contiguous block.\<close>

fun includes_str :: "string \<Rightarrow> string \<Rightarrow> bool" where
  "includes_str [] sub = (sub = [])"
| "includes_str (c # cs) sub = (prefix sub (c # cs) \<or> includes_str cs sub)"

text \<open>
  \<^verbatim>\<open>toUpperCase\<close>, on the UTF-8 bytes of the text. The ASCII letters are capitalised. Of
  the other characters those are capitalised whose capital holds an ASCII letter: U+00DF
  (\<^verbatim>\<open>SS\<close>), U+0131 (\<^verbatim>\<open>I\<close>), U+0149, U+017F (\<^verbatim>\<open>S\<close>), U+01F0, U+1E96 to U+1E9A (a letter
  and a mark) and the ligatures U+FB00 to U+FB06 (\<^verbatim>\<open>FF\<close>, \<^verbatim>\<open>FI\<close>, \<^verbatim>\<open>FL\<close>, \<^verbatim>\<open>FFI\<close>,
  \<^verbatim>\<open>FFL\<close>, \<^verbatim>\<open>ST\<close>, \<^verbatim>\<open>ST\<close>). Every other character is left as it is: its capital holds no
  ASCII character, and the components only search the capitalised text for ASCII names.
\<close>

definition toUpperCase_char :: "char \<Rightarrow> char" where
  "toUpperCase_char c =
     (case map_of (zip ''abcdefghijklmnopqrstuvwxyz'' ''ABCDEFGHIJKLMNOPQRSTUVWXYZ'') c of
        Some u \<Rightarrow> u | None \<Rightarrow> c)"

definition capital2 :: "char \<Rightarrow> char \<Rightarrow> string option" where
  "capital2 a b =
     (if a = CHR 0xC3 \<and> b = CHR 0x9F then Some ''SS''
      else if a = CHR 0xC4 \<and> b = CHR 0xB1 then Some ''I''
      else if a = CHR 0xC5 \<and> b = CHR 0x89 then Some [CHR 0xCA, CHR 0xBC, CHR ''N'']
      else if a = CHR 0xC5 \<and> b = CHR 0xBF then Some ''S''
      else if a = CHR 0xC7 \<and> b = CHR 0xB0 then Some [CHR ''J'', CHR 0xCC, CHR 0x8C]
      else None)"

definition capital3 :: "char \<Rightarrow> char \<Rightarrow> char \<Rightarrow> string option" where
  "capital3 a b c =
     (if a = CHR 0xE1 \<and> b = CHR 0xBA then
        map_of [(CHR 0x96, [CHR ''H'', CHR 0xCC, CHR 0xB1]),
                (CHR 0x97, [CHR ''T'', CHR 0xCC, CHR 0x88]),
                (CHR 0x98, [CHR ''W'', CHR 0xCC, CHR 0x8A]),
                (CHR 0x99, [CHR ''Y'', CHR 0xCC, CHR 0x8A]),
                (CHR 0x9A, [CHR ''A'', CHR 0xCA, CHR 0xBE])] c
      else if a = CHR 0xEF \<and> b = CHR 0xAC then
        map_of [(CHR 0x80, ''FF''), (CHR 0x81, ''FI''), (CHR 0x82, ''FL''),
                (CHR 0x83, ''FFI''), (CHR 0x84, ''FFL''), (CHR 0x85, ''ST''),
                (CHR 0x86, ''ST'')] c
      else None)"

fun toUpperCase :: "string \<Rightarrow> string" where
  "toUpperCase (a # b # c # r) =
     (case capital3 a b c of
        Some u \<Rightarrow> u @ toUpperCase r
      | None \<Rightarrow>
          (case capital2 a b of
             Some u \<Rightarrow> u @ toUpperCase (c # r)
           | None \<Rightarrow> toUpperCase_char a # toUpperCase (b # c # r)))"
| "toUpperCase [a, b] =
     (case capital2 a b of
        Some u \<Rightarrow> u
      | None \<Rightarrow> [toUpperCase_char a, toUpperCase_char b])"
| "toUpperCase [a] = [toUpperCase_char a]"
| "toUpperCase [] = []"

text \<open>
  The decimal numeral of a natural number: what a template literal prints for a loop
  index or an express id.
\<close>

fun string_of_nat :: "nat \<Rightarrow> string" where
  "string_of_nat n =
     (if n < 10 then [''0123456789'' ! n]
      else string_of_nat (n div 10) @ [''0123456789'' ! (n mod 10)])"

declare string_of_nat.simps [simp del]

section \<open>The schema loader (SimpleIfcLoader.tsx, loadIfcSchema and getTypeName)\<close>

text \<open>
  The regular expression \<^verbatim>\<open>/export const (\w+) = (\d+);/g\<close>. Both repetitions are greedy and
  are followed by a character outside their class, so the longest run is the only run that
  can match: \<open>match_at\<close> decides a match at the head of the text and returns the two groups
  and the text after the match.
\<close>

definition is_digit :: "char \<Rightarrow> bool" where
  "is_digit c = (c \<in> set ''0123456789'')"

definition is_word_char :: "char \<Rightarrow> bool" where
  "is_word_char c =
     (c \<in> set ''abcdefghijklmnopqrstuvwxyzABCDEFGHIJKLMNOPQRSTUVWXYZ0123456789_'')"

definition match_at :: "string \<Rightarrow> (string \<times> string \<times> string) option" where
  "match_at s =
     (if prefix ''export const '' s then
        let r1 = drop 13 s; name = takeWhile is_word_char r1; r2 = dropWhile is_word_char r1
        in if name \<noteq> [] \<and> prefix '' = '' r2 then
             let r3 = drop 3 r2; ds = takeWhile is_digit r3; r4 = dropWhile is_digit r3
             in if ds \<noteq> [] \<and> prefix '';'' r4 then Some (name, ds, drop 1 r4) else None
           else None
      else None)"

text \<open>
  \<^verbatim>\<open>matchAll\<close> with the global flag: the search resumes after each match, and moves one
  character on where there is none.
\<close>

function matchAll_schema :: "string \<Rightarrow> (string \<times> string) list" where
  "matchAll_schema s =
     (case match_at s of
        Some (name, ds, rest) \<Rightarrow> (name, ds) # matchAll_schema rest
      | None \<Rightarrow> (case s of [] \<Rightarrow> [] | c # t \<Rightarrow> matchAll_schema t))"
  by pat_completeness auto
termination
proof -
  have shorter: "length rest < length s"
    if m: "match_at s = Some (name, ds, rest)" for s name ds rest
  proof -
    define r2 where "r2 = dropWhile is_word_char (drop 13 s)"
    define r4 where "r4 = dropWhile is_digit (drop 3 r2)"
    from m have r: "rest = drop 1 r4" and p: "prefix '';'' r4"
      unfolding match_at_def Let_def r4_def r2_def by (auto split: if_splits)
    have "length r2 \<le> length (drop 13 s)"
      unfolding r2_def by (rule length_dropWhile_le)
    then have l2: "length r2 \<le> length s" by simp
    have "length r4 \<le> length (drop 3 r2)"
      unfolding r4_def by (rule length_dropWhile_le)
    with l2 have l4: "length r4 \<le> length s" by simp
    from p have "r4 \<noteq> []" by auto
    with r l4 show ?thesis by (cases r4) auto
  qed
  show ?thesis
    by (relation "measure length") (auto dest: shorter)
qed

declare matchAll_schema.simps [simp del]

text \<open>
  \<^verbatim>\<open>parseInt(value, 10)\<close> on a run of decimal digits. The result is a double: below
  \<open>2^53\<close> it is the exact value, which \<open>parseInt10\<close> computes; above, the code rounds and the
  definition does not follow it. Every statement about the tables is therefore made for
  codes below \<open>2^53\<close> (the type codes of the schema are 32-bit).
\<close>

definition digit_val :: "char \<Rightarrow> nat" where
  "digit_val c = (case map_of (zip ''0123456789'' [0, 1, 2, 3, 4, 5, 6, 7, 8, 9]) c of
       Some d \<Rightarrow> d | None \<Rightarrow> 0)"

definition parseInt10 :: "string \<Rightarrow> nat" where
  "parseInt10 ds = foldl (\<lambda>a c. 10 * a + digit_val c) 0 ds"

text \<open>
  The two tables of the component state: \<open>ifcSchema\<close> (name to code) and
  \<open>inverseIfcSchema\<close> (code to name). The loop body assigns both. Both are plain objects:
  the assignment \<^verbatim>\<open>schemaMap[name] = numValue\<close> stores a property for every name but
  \<^verbatim>\<open>__proto__\<close>, for which it runs the inherited setter, and that stores nothing for a
  number. The keys of the inverse table are printed numbers, which the setter does not
  concern.
\<close>

record schema_state =
  ifcSchema :: "string \<rightharpoonup> nat"
  inverseIfcSchema :: "nat \<rightharpoonup> string"

definition schema_init :: schema_state where
  "schema_init = \<lparr>ifcSchema = Map.empty, inverseIfcSchema = Map.empty\<rparr>"

definition schema_step :: "schema_state \<Rightarrow> string \<times> string \<Rightarrow> schema_state" where
  "schema_step st m =
     (let numValue = parseInt10 (snd m)
      in \<lparr>ifcSchema =
            (if fst m = ''__proto__'' then ifcSchema st
             else (ifcSchema st)(fst m \<mapsto> numValue)),
          inverseIfcSchema = (inverseIfcSchema st)(numValue \<mapsto> fst m)\<rparr>)"

definition matched_entries :: "string \<Rightarrow> (string \<times> nat) list" where
  "matched_entries schemaText = map (\<lambda>m. (fst m, parseInt10 (snd m))) (matchAll_schema schemaText)"

text \<open>
  \<open>loadIfcSchema\<close>: the response is \<open>None\<close> when the fetch fails or is not ok; the error is
  caught and the state keeps its initial empty tables.
\<close>

definition loadIfcSchema :: "string option \<Rightarrow> schema_state" where
  "loadIfcSchema response =
     (case response of
        None \<Rightarrow> schema_init
      | Some schemaText \<Rightarrow> foldl schema_step schema_init (matchAll_schema schemaText))"

text \<open>
  \<open>getTypeName\<close>. The table is indexed by the printed number, so only a non-negative integer
  can hit a key; a stored name is never empty (\<^verbatim>\<open>\w+\<close>), the truthiness test is kept all
  the same.
\<close>

definition code_key :: "jsnum \<Rightarrow> nat option" where
  "code_key n = (case n of
       Fin r \<Rightarrow> (if of_int \<lfloor>r\<rfloor> = r \<and> 0 \<le> r then Some (nat \<lfloor>r\<rfloor>) else None)
     | _ \<Rightarrow> None)"

definition inverse_lookup :: "schema_state \<Rightarrow> jsnum \<Rightarrow> string option" where
  "inverse_lookup st typeCode =
     (case code_key typeCode of None \<Rightarrow> None | Some k \<Rightarrow> inverseIfcSchema st k)"

definition getTypeName :: "jsenv \<Rightarrow> schema_state \<Rightarrow> jsnum \<Rightarrow> string" where
  "getTypeName E st typeCode =
     (case inverse_lookup st typeCode of
        Some name \<Rightarrow> (if name \<noteq> [] then name
                      else ''Unknown Type ('' @ NumberToString E typeCode @ '')'')
      | None \<Rightarrow> ''Unknown Type ('' @ NumberToString E typeCode @ '')'')"

section \<open>Property sets (IfcBuiltElementsLoader.tsx)\<close>

record PropertyValue =
  pv_name :: string
  pv_value :: jsval
  pv_type :: string

record PropertySet =
  ps_name :: string
  ps_properties :: "PropertyValue list"

text \<open>
  A loop whose body may raise: the items are handled from left to right, each contributes
  the values it pushes, and the first error ends the loop with that error.
\<close>

fun collect :: "('a \<Rightarrow> error + 'b list) \<Rightarrow> 'a list \<Rightarrow> error + 'b list" where
  "collect f [] = Inr []"
| "collect f (x # xs) =
     (case f x of
        Inl e \<Rightarrow> Inl e
      | Inr ys \<Rightarrow> (case collect f xs of Inl e \<Rightarrow> Inl e | Inr zs \<Rightarrow> Inr (ys @ zs)))"

text \<open>An array with its indexes, as \<^verbatim>\<open>for (let i = 0; i < a.length; i++)\<close> meets them.\<close>

definition indexed :: "'a list \<Rightarrow> (nat \<times> 'a) list" where
  "indexed xs = zip [0..<length xs] xs"

text \<open>\<^verbatim>\<open>v?.k\<close>\<close>

definition opt_get :: "jsval \<Rightarrow> string \<Rightarrow> jsval" where
  "opt_get v k = (if nullish v then JUndefined else get v k)"

text \<open>
  \<^verbatim>\<open>propName.replace(/HasProperties\[\d+\]\.NominalValue/, "Property")\<close>: the first match
  is replaced.
\<close>

definition match_HasProperties_at :: "string \<Rightarrow> string option" where
  "match_HasProperties_at s =
     (if prefix ''HasProperties['' s then
        let r = drop 14 s; ds = takeWhile is_digit r; r2 = dropWhile is_digit r
        in if ds \<noteq> [] \<and> prefix ''].NominalValue'' r2 then Some (drop 14 r2) else None
      else None)"

fun replace_HasProperties :: "string \<Rightarrow> string" where
  "replace_HasProperties [] = []"
| "replace_HasProperties (c # cs) =
     (case match_HasProperties_at (c # cs) of
        Some rest \<Rightarrow> ''Property'' @ rest
      | None \<Rightarrow> c # replace_HasProperties cs)"

text \<open>
  \<open>extractPropertyValue\<close> of IfcBuiltElementsLoader.tsx. There \<^verbatim>\<open>match\<close> is the regular
  expression itself, so \<^verbatim>\<open>match[1]\<close> is undefined and the name is always the replaced one
  in the last naming branch.
\<close>

definition improved_name :: "string \<Rightarrow> string" where
  "improved_name propName =
     (if includes_str propName ''Quantities['' \<and> includes_str propName ''VolumeValue''
        then ''Volume''
      else if includes_str propName ''Quantities['' \<and> includes_str propName ''AreaValue''
        then ''Area''
      else if includes_str propName ''Quantities['' \<and> includes_str propName ''LengthValue''
        then ''Length''
      else if includes_str propName ''HasProperties[0].NominalValue'' then ''IsExternal''
      else if includes_str propName ''HasProperties[1].NominalValue'' then ''LoadBearing''
      else if includes_str propName ''HasProperties['' \<and> includes_str propName ''NominalValue''
        then replace_HasProperties propName
      else propName)"

definition extractPropertyValue :: "jsval \<Rightarrow> string \<Rightarrow> PropertyValue option" where
  "extractPropertyValue prop propName =
     (if includes_str propName ''OwnerHistory'' then None
      else if nullish prop then None
      else if typeof prop = ''object'' \<and> has_key prop ''value'' then
        let v = (if nullish (get prop ''value'') then JNull else get prop ''value'')
        in Some \<lparr>pv_name = improved_name propName, pv_value = v, pv_type = typeof v\<rparr>
      else if typeof prop \<noteq> ''object'' then
        Some \<lparr>pv_name = improved_name propName, pv_value = prop, pv_type = typeof prop\<rparr>
      else None)"

text \<open>
  The first loop of \<open>extractPropertySet\<close>: the table \<open>propertyNames\<close>, keyed by
  \<^verbatim>\<open>HasProperties[i]\<close>. Reading \<^verbatim>\<open>prop.Name\<close> raises on a null item.
\<close>

definition HasProperties_key :: "nat \<Rightarrow> string" where
  "HasProperties_key i = ''HasProperties['' @ string_of_nat i @ '']''"

definition propertyName_entry :: "jsenv \<Rightarrow> nat \<times> jsval \<Rightarrow> error + (string \<times> string) list" where
  "propertyName_entry E ip =
     (let i = fst ip; prop = snd ip
      in if nullish prop then Inl TypeError
         else if truthy (get prop ''Name'') \<and> get (get prop ''Name'') ''value'' \<noteq> JUndefined
           then Inr [(HasProperties_key i, String_js E (get (get prop ''Name'') ''value''))]
         else Inr [])"

definition propertyNames_of :: "jsenv \<Rightarrow> jsval \<Rightarrow> error + (string \<rightharpoonup> string)" where
  "propertyNames_of E hasProperties =
     (case hasProperties of
        JArr props \<Rightarrow>
          (case collect (propertyName_entry E) (indexed props) of
             Inl e \<Rightarrow> Inl e
           | Inr kvs \<Rightarrow> Inr (map_of (rev kvs)))
      | _ \<Rightarrow> Inr Map.empty)"

text \<open>
  The body of the array loop for the key \<^verbatim>\<open>Quantities\<close>: the value holders are tried in the
  order \<^verbatim>\<open>VolumeValue\<close>, \<^verbatim>\<open>AreaValue\<close>, \<^verbatim>\<open>LengthValue\<close>; an item with none of them pushes
  nothing.
\<close>

definition holder_present :: "jsval \<Rightarrow> string \<Rightarrow> bool" where
  "holder_present item k = (truthy (get item k) \<and> get (get item k) ''value'' \<noteq> JUndefined)"

definition quantity_name :: "jsenv \<Rightarrow> jsval \<Rightarrow> string \<Rightarrow> string" where
  "quantity_name E item dflt =
     (if truthy (opt_get (get item ''Name'') ''value'')
      then String_js E (get (get item ''Name'') ''value'') else dflt)"

definition quantity_value :: "jsenv \<Rightarrow> jsval \<Rightarrow> string \<Rightarrow> string \<Rightarrow> PropertyValue" where
  "quantity_value E item k dflt =
     \<lparr>pv_name = quantity_name E item dflt,
      pv_value = JNum (Number_js E (get (get item k) ''value'')),
      pv_type = ''number''\<rparr>"

definition Quantities_item :: "jsenv \<Rightarrow> jsval \<Rightarrow> error + PropertyValue list" where
  "Quantities_item E item =
     (if nullish item then Inl TypeError
      else if holder_present item ''VolumeValue''
        then Inr [quantity_value E item ''VolumeValue'' ''Volume'']
      else if holder_present item ''AreaValue''
        then Inr [quantity_value E item ''AreaValue'' ''Area'']
      else if holder_present item ''LengthValue''
        then Inr [quantity_value E item ''LengthValue'' ''Length'']
      else Inr [])"

text \<open>The body of the array loop for the key \<^verbatim>\<open>HasProperties\<close>.\<close>

definition HasProperties_item ::
  "jsenv \<Rightarrow> (string \<rightharpoonup> string) \<Rightarrow> nat \<times> jsval \<Rightarrow> error + PropertyValue list" where
  "HasProperties_item E propertyNames ii =
     (let i = fst ii; item = snd ii
      in if nullish item then Inl TypeError
         else if holder_present item ''NominalValue'' then
           let propName =
                 (if truthy (get item ''Name'') \<and> get (get item ''Name'') ''value'' \<noteq> JUndefined
                    then String_js E (get (get item ''Name'') ''value'')
                  else (case propertyNames (HasProperties_key i) of
                          Some n \<Rightarrow> (if n \<noteq> [] then n
                                     else if i = 0 then ''IsExternal''
                                     else if i = 1 then ''LoadBearing''
                                     else ''Property '' @ string_of_nat (i + 1))
                        | None \<Rightarrow> (if i = 0 then ''IsExternal''
                                   else if i = 1 then ''LoadBearing''
                                   else ''Property '' @ string_of_nat (i + 1))))
           in Inr [\<lparr>pv_name = propName,
                    pv_value = get (get item ''NominalValue'') ''value'',
                    pv_type = typeof (get (get item ''NominalValue'') ''value'')\<rparr>]
         else Inr [])"

text \<open>One turn of the loop over \<^verbatim>\<open>Object.entries(propSet)\<close>.\<close>

definition skipped_keys :: "string list" where
  "skipped_keys = [''type'', ''Name'', ''GlobalId'', ''expressID'', ''OwnerHistory'']"

definition entry_properties ::
  "jsenv \<Rightarrow> (string \<rightharpoonup> string) \<Rightarrow> string \<times> jsval \<Rightarrow> error + PropertyValue list" where
  "entry_properties E propertyNames kv =
     (let key = fst kv; v = snd kv
      in if key \<in> set skipped_keys then Inr []
         else (case v of
            JArr items \<Rightarrow>
              (if key = ''Quantities'' then collect (Quantities_item E) items
               else if key = ''HasProperties''
                 then collect (HasProperties_item E propertyNames) (indexed items)
               else Inr [])
          | JObj fs \<Rightarrow>
              (if \<not> includes_str key ''OwnerHistory''
                  \<and> has_key v ''value'' \<and> get v ''value'' \<noteq> JUndefined
               then (case extractPropertyValue v key of
                       Some pv \<Rightarrow> (if pv_value pv \<noteq> JNull then Inr [pv] else Inr [])
                     | None \<Rightarrow> Inr [])
               else Inr [])
          | _ \<Rightarrow> Inr []))"

definition extractPropertySet :: "jsenv \<Rightarrow> (string \<times> jsval) list \<Rightarrow> error + PropertySet" where
  "extractPropertySet E fs =
     (let propSet = JObj fs;
          setName = (if opt_get (get propSet ''Name'') ''value'' \<noteq> JUndefined
                     then String_js E (get (get propSet ''Name'') ''value'')
                     else ''Unnamed Set'')
      in case propertyNames_of E (get propSet ''HasProperties'') of
           Inl e \<Rightarrow> Inl e
         | Inr propertyNames \<Rightarrow>
             (case collect (entry_properties E propertyNames) fs of
                Inl e \<Rightarrow> Inl e
              | Inr properties \<Rightarrow> Inr \<lparr>ps_name = setName, ps_properties = properties\<rparr>))"

text \<open>
  The engine, as far as the components call it. Every call may raise; the model id is the
  one \<^verbatim>\<open>OpenModel\<close> returned.
\<close>

record IfcAPI =
  GetLine :: "nat \<Rightarrow> nat \<Rightarrow> error + jsval"
  GetNameFromTypeCode :: "jsnum \<Rightarrow> error + string"
  getPropertySets :: "nat \<Rightarrow> nat \<Rightarrow> error + (string \<times> jsval) list list"
  getMaterialsProperties :: "nat \<Rightarrow> nat \<Rightarrow> error + jsval list"
  getTypeProperties :: "nat \<Rightarrow> nat \<Rightarrow> error + jsval list"

text \<open>
  \<open>extractAllProperties\<close>: the whole body stands in a \<^verbatim>\<open>try\<close>; the handler logs and returns
  the empty list.
\<close>

definition nonempty_set :: "jsenv \<Rightarrow> (string \<times> jsval) list \<Rightarrow> error + PropertySet list" where
  "nonempty_set E s =
     (case extractPropertySet E s of
        Inl e \<Rightarrow> Inl e
      | Inr propertySet \<Rightarrow> Inr (if ps_properties propertySet \<noteq> [] then [propertySet] else []))"

definition extractAllProperties :: "jsenv \<Rightarrow> IfcAPI \<Rightarrow> nat \<Rightarrow> nat \<Rightarrow> PropertySet list" where
  "extractAllProperties E api modelId elementId =
     (case getPropertySets api modelId elementId of
        Inl e \<Rightarrow> []
      | Inr propertySets \<Rightarrow>
          (case collect (nonempty_set E) propertySets of
             Inl e \<Rightarrow> []
           | Inr result \<Rightarrow> result))"

section \<open>The spatial tree walk (IfcBuiltElementsLoader.tsx)\<close>

text \<open>
  A node of the engine's spatial structure. Its type is a name, a numeric code, or
  something else (for which \<open>processModelElement\<close> returns \<^verbatim>\<open>null\<close>).
\<close>

datatype node_type = TypeName string | TypeCode jsnum | TypeOther

datatype SpatialNode = SpatialNode (expressID: nat) (ntype: node_type) (children: "SpatialNode list")

record IfcModelElement =
  el_id :: nat
  el_type :: string
  el_typeName :: string
  el_name :: string
  el_globalId :: "string option"
  el_propertySets :: "PropertySet list"
  el_rawElement :: "jsval option"

definition PHYSICAL_ELEMENT_TYPES :: "string list" where
  "PHYSICAL_ELEMENT_TYPES =
     [''IFCWALL'', ''IFCSLAB'', ''IFCDOOR'', ''IFCWINDOW'', ''IFCCOLUMN'', ''IFCBEAM'',
      ''IFCROOF'', ''IFCSTAIR'', ''IFCRAILING'', ''IFCFURNISHINGELEMENT'',
      ''IFCCURTAINWALL'', ''IFCMEMBER'', ''IFCPLATE'']"

definition isPhysicalElementByName :: "string \<Rightarrow> bool" where
  "isPhysicalElementByName typeName =
     (if length PHYSICAL_ELEMENT_TYPES = 0 then True
      else let upperCaseType = toUpperCase typeName
           in list_ex (\<lambda>t. includes_str upperCaseType t) PHYSICAL_ELEMENT_TYPES)"

text \<open>\<^verbatim>\<open>typeName.replace("Ifc", "")\<close>: the first occurrence is removed.\<close>

fun replace_Ifc :: "string \<Rightarrow> string" where
  "replace_Ifc [] = []"
| "replace_Ifc (c # cs) =
     (if prefix ''Ifc'' (c # cs) then drop 3 (c # cs) else c # replace_Ifc cs)"

definition element_name :: "jsenv \<Rightarrow> jsval \<Rightarrow> nat \<Rightarrow> string" where
  "element_name E element nodeId =
     (if truthy (get element ''Name'') \<and> get (get element ''Name'') ''value'' \<noteq> JUndefined
        then String_js E (get (get element ''Name'') ''value'')
      else if truthy (get element ''GlobalId'')
              \<and> get (get element ''GlobalId'') ''value'' \<noteq> JUndefined
        then ''['' @ String_js E (get (get element ''GlobalId'') ''value'') @ '']''
      else ''Element #'' @ string_of_nat nodeId)"

definition element_globalId :: "jsenv \<Rightarrow> jsval \<Rightarrow> string option" where
  "element_globalId E element =
     (if truthy (get element ''GlobalId'')
         \<and> get (get element ''GlobalId'') ''value'' \<noteq> JUndefined
      then Some (String_js E (get (get element ''GlobalId'') ''value'')) else None)"

text \<open>
  The type name of a node: \<open>Inr None\<close> stands for the branch that returns \<^verbatim>\<open>null\<close> (a type
  that is neither a string nor a number), \<open>Inl\<close> for an engine call that raised.
\<close>

definition node_typeName :: "IfcAPI \<Rightarrow> SpatialNode \<Rightarrow> error + string option" where
  "node_typeName api node =
     (case ntype node of
        TypeName s \<Rightarrow> Inr (Some s)
      | TypeCode c \<Rightarrow> (case GetNameFromTypeCode api c of Inl e \<Rightarrow> Inl e | Inr s \<Rightarrow> Inr (Some s))
      | TypeOther \<Rightarrow> Inr None)"

text \<open>
  \<open>processModelElement\<close>: the body stands in a \<^verbatim>\<open>try\<close> whose handler logs and returns
  \<^verbatim>\<open>null\<close>. \<open>showRawData\<close> is the component's state of that name.
\<close>

definition processModelElement ::
  "jsenv \<Rightarrow> bool \<Rightarrow> IfcAPI \<Rightarrow> nat \<Rightarrow> bool \<Rightarrow> SpatialNode \<Rightarrow> IfcModelElement option" where
  "processModelElement E showRawData api modelId includeAll node =
     (case GetLine api modelId (expressID node) of
        Inl e \<Rightarrow> None
      | Inr element \<Rightarrow>
          (case node_typeName api node of
             Inl e \<Rightarrow> None
           | Inr None \<Rightarrow> None
           | Inr (Some typeName) \<Rightarrow>
               (if \<not> isPhysicalElementByName typeName \<and> \<not> includeAll then None
                else if nullish element then None
                else Some \<lparr>el_id = expressID node,
                           el_type = typeName,
                           el_typeName = replace_Ifc typeName,
                           el_name = element_name E element (expressID node),
                           el_globalId = element_globalId E element,
                           el_propertySets =
                             extractAllProperties E api modelId (expressID node),
                           el_rawElement = (if showRawData then Some element else None)\<rparr>)))"

text \<open>
  \<open>extractModelElements\<close>: the node first, then the children in the order of the array.
\<close>

fun extractModelElements ::
  "jsenv \<Rightarrow> bool \<Rightarrow> IfcAPI \<Rightarrow> nat \<Rightarrow> bool \<Rightarrow> SpatialNode \<Rightarrow> IfcModelElement list" where
  "extractModelElements E showRawData api modelId includeAll (SpatialNode i t cs) =
     (case processModelElement E showRawData api modelId includeAll (SpatialNode i t cs) of
        Some element \<Rightarrow> [element]
      | None \<Rightarrow> [])
     @ concat (map (extractModelElements E showRawData api modelId includeAll) cs)"

text \<open>
  The words of the specification: the pre-order sequence of the nodes of a tree, and the
  number of its nodes.
\<close>

fun preorder :: "SpatialNode \<Rightarrow> SpatialNode list" where
  "preorder (SpatialNode i t cs) = SpatialNode i t cs # concat (map preorder cs)"

fun count_nodes :: "SpatialNode \<Rightarrow> nat" where
  "count_nodes (SpatialNode i t cs) = Suc (sum_list (map count_nodes cs))"

section \<open>Property sets of IfcLoader.tsx\<close>

text \<open>
  IfcLoader.tsx has the text of \<open>extractPropertyValue\<close>, \<open>extractPropertySet\<close> and
  \<open>extractAllProperties\<close> again, with one difference: in the last naming branch it runs
  \<^verbatim>\<open>/HasProperties\[\d+\]\.Name\.value\s*=\s*['"]([^'"]+)['"]/\<close> on the property name and,
  on a match, takes the captured group for the name.

  The white space of the language, in the UTF-8 bytes of the characters: the six ASCII
  characters, U+00A0, and the three-byte characters U+1680, U+2000 to U+200A, U+2028,
  U+2029, U+202F, U+205F, U+3000 and U+FEFF.
\<close>

definition ascii_space :: "char \<Rightarrow> bool" where
  "ascii_space c = (c \<in> set [CHR 0x09, CHR 0x0A, CHR 0x0B, CHR 0x0C, CHR 0x0D, CHR 0x20])"

definition space3 :: "char \<Rightarrow> char \<Rightarrow> char \<Rightarrow> bool" where
  "space3 a b c =
     ((a = CHR 0xE1 \<and> b = CHR 0x9A \<and> c = CHR 0x80)
    \<or> (a = CHR 0xE2 \<and> b = CHR 0x80
         \<and> c \<in> set [CHR 0x80, CHR 0x81, CHR 0x82, CHR 0x83, CHR 0x84, CHR 0x85, CHR 0x86,
                     CHR 0x87, CHR 0x88, CHR 0x89, CHR 0x8A, CHR 0xA8, CHR 0xA9, CHR 0xAF])
    \<or> (a = CHR 0xE2 \<and> b = CHR 0x81 \<and> c = CHR 0x9F)
    \<or> (a = CHR 0xE3 \<and> b = CHR 0x80 \<and> c = CHR 0x80)
    \<or> (a = CHR 0xEF \<and> b = CHR 0xBB \<and> c = CHR 0xBF))"

text \<open>\<^verbatim>\<open>\s*\<close>: the text after the longest run of white space at its head.\<close>

fun skip_spaces :: "string \<Rightarrow> string" where
  "skip_spaces (a # b # c # r) =
     (if ascii_space a then skip_spaces (b # c # r)
      else if a = CHR 0xC2 \<and> b = CHR 0xA0 then skip_spaces (c # r)
      else if space3 a b c then skip_spaces r
      else a # b # c # r)"
| "skip_spaces [a, b] =
     (if ascii_space a then skip_spaces [b]
      else if a = CHR 0xC2 \<and> b = CHR 0xA0 then []
      else [a, b])"
| "skip_spaces [a] = (if ascii_space a then [] else [a])"
| "skip_spaces [] = []"

definition is_quote :: "char \<Rightarrow> bool" where
  "is_quote c = (c = CHR 0x27 \<or> c = CHR 0x22)"

text \<open>
  A match of the expression at the head of the text, with its captured group. Every
  repetition is greedy and is followed by a character outside its class, so the longest
  run is the only one that can match.
\<close>

definition match_Name_value_at :: "string \<Rightarrow> string option" where
  "match_Name_value_at s =
     (if prefix ''HasProperties['' s then
        let r = drop 14 s; ds = takeWhile is_digit r; r2 = dropWhile is_digit r
        in if ds \<noteq> [] \<and> prefix ''].Name.value'' r2 then
             let r3 = skip_spaces (drop 12 r2)
             in if prefix ''='' r3 then
                  let r4 = skip_spaces (drop 1 r3)
                  in (case r4 of
                        [] \<Rightarrow> None
                      | q # r5 \<Rightarrow>
                          (if is_quote q \<and> takeWhile (\<lambda>c. \<not> is_quote c) r5 \<noteq> []
                              \<and> dropWhile (\<lambda>c. \<not> is_quote c) r5 \<noteq> []
                           then Some (takeWhile (\<lambda>c. \<not> is_quote c) r5) else None))
                else None
           else None
      else None)"

text \<open>\<^verbatim>\<open>regex.exec(propName)\<close>: the captured group of the leftmost match.\<close>

fun exec_Name_value :: "string \<Rightarrow> string option" where
  "exec_Name_value [] = None"
| "exec_Name_value (c # cs) =
     (case match_Name_value_at (c # cs) of
        Some captured \<Rightarrow> Some captured
      | None \<Rightarrow> exec_Name_value cs)"

definition improved_nameM :: "string \<Rightarrow> string" where
  "improved_nameM propName =
     (if includes_str propName ''Quantities['' \<and> includes_str propName ''VolumeValue''
        then ''Volume''
      else if includes_str propName ''Quantities['' \<and> includes_str propName ''AreaValue''
        then ''Area''
      else if includes_str propName ''Quantities['' \<and> includes_str propName ''LengthValue''
        then ''Length''
      else if includes_str propName ''HasProperties[0].NominalValue'' then ''IsExternal''
      else if includes_str propName ''HasProperties[1].NominalValue'' then ''LoadBearing''
      else if includes_str propName ''HasProperties['' \<and> includes_str propName ''NominalValue''
        then (case exec_Name_value propName of
                Some captured \<Rightarrow> captured
              | None \<Rightarrow> replace_HasProperties propName)
      else propName)"

definition extractPropertyValueM :: "jsval \<Rightarrow> string \<Rightarrow> PropertyValue option" where
  "extractPropertyValueM prop propName =
     (if includes_str propName ''OwnerHistory'' then None
      else if nullish prop then None
      else if typeof prop = ''object'' \<and> has_key prop ''value'' then
        let v = (if nullish (get prop ''value'') then JNull else get prop ''value'')
        in Some \<lparr>pv_name = improved_nameM propName, pv_value = v, pv_type = typeof v\<rparr>
      else if typeof prop \<noteq> ''object'' then
        Some \<lparr>pv_name = improved_nameM propName, pv_value = prop, pv_type = typeof prop\<rparr>
      else None)"

definition entry_propertiesM ::
  "jsenv \<Rightarrow> (string \<rightharpoonup> string) \<Rightarrow> string \<times> jsval \<Rightarrow> error + PropertyValue list" where
  "entry_propertiesM E propertyNames kv =
     (let key = fst kv; v = snd kv
      in if key \<in> set skipped_keys then Inr []
         else (case v of
            JArr items \<Rightarrow>
              (if key = ''Quantities'' then collect (Quantities_item E) items
               else if key = ''HasProperties''
                 then collect (HasProperties_item E propertyNames) (indexed items)
               else Inr [])
          | JObj fs \<Rightarrow>
              (if \<not> includes_str key ''OwnerHistory''
                  \<and> has_key v ''value'' \<and> get v ''value'' \<noteq> JUndefined
               then (case extractPropertyValueM v key of
                       Some pv \<Rightarrow> (if pv_value pv \<noteq> JNull then Inr [pv] else Inr [])
                     | None \<Rightarrow> Inr [])
               else Inr [])
          | _ \<Rightarrow> Inr []))"

definition extractPropertySetM :: "jsenv \<Rightarrow> (string \<times> jsval) list \<Rightarrow> error + PropertySet" where
  "extractPropertySetM E fs =
     (let propSet = JObj fs;
          setName = (if opt_get (get propSet ''Name'') ''value'' \<noteq> JUndefined
                     then String_js E (get (get propSet ''Name'') ''value'')
                     else ''Unnamed Set'')
      in case propertyNames_of E (get propSet ''HasProperties'') of
           Inl e \<Rightarrow> Inl e
         | Inr propertyNames \<Rightarrow>
             (case collect (entry_propertiesM E propertyNames) fs of
                Inl e \<Rightarrow> Inl e
              | Inr properties \<Rightarrow> Inr \<lparr>ps_name = setName, ps_properties = properties\<rparr>))"

definition nonempty_setM :: "jsenv \<Rightarrow> (string \<times> jsval) list \<Rightarrow> error + PropertySet list" where
  "nonempty_setM E s =
     (case extractPropertySetM E s of
        Inl e \<Rightarrow> Inl e
      | Inr propertySet \<Rightarrow> Inr (if ps_properties propertySet \<noteq> [] then [propertySet] else []))"

definition extractAllPropertiesM :: "jsenv \<Rightarrow> IfcAPI \<Rightarrow> nat \<Rightarrow> nat \<Rightarrow> PropertySet list" where
  "extractAllPropertiesM E api modelId elementId =
     (case getPropertySets api modelId elementId of
        Inl e \<Rightarrow> []
      | Inr propertySets \<Rightarrow>
          (case collect (nonempty_setM E) propertySets of
             Inl e \<Rightarrow> []
           | Inr result \<Rightarrow> result))"

section \<open>Materials (IfcLoader.tsx, the component with materials)\<close>

record MaterialInfo =
  mi_name :: string
  mi_category :: "string option"
  mi_description :: "string option"
  mi_properties :: "PropertyValue list option"

record MaterialLayer =
  ml_index :: nat
  ml_thickness :: jsnum
  ml_material :: string

record StructuredMaterialInfo =
  sm_name :: string
  sm_type :: string
  sm_layers :: "MaterialLayer list option"
  sm_properties :: "PropertyValue list option"

text \<open>
  The nested loops push to two arrays, the properties of the material and \<open>result\<close>; a turn
  of a loop is modelled by the pair of what it pushes to each.
\<close>

fun collect2 ::
  "('a \<Rightarrow> error + 'b list \<times> 'c list) \<Rightarrow> 'a list \<Rightarrow> error + 'b list \<times> 'c list" where
  "collect2 f [] = Inr ([], [])"
| "collect2 f (x # xs) =
     (case f x of
        Inl e \<Rightarrow> Inl e
      | Inr (ps, ms) \<Rightarrow>
          (case collect2 f xs of
             Inl e \<Rightarrow> Inl e
           | Inr (ps', ms') \<Rightarrow> Inr (ps @ ps', ms @ ms')))"

definition named_value :: "jsenv \<Rightarrow> jsval \<Rightarrow> string \<Rightarrow> string" where
  "named_value E v dflt =
     (if truthy (get v ''Name'') \<and> get (get v ''Name'') ''value'' \<noteq> JUndefined
      then String_js E (get (get v ''Name'') ''value'') else dflt)"

definition optional_string :: "jsenv \<Rightarrow> jsval \<Rightarrow> string \<Rightarrow> string option" where
  "optional_string E material k =
     (if truthy (get material k) \<and> get (get material k) ''value'' \<noteq> JUndefined
      then Some (String_js E (get (get material k) ''value'')) else None)"

definition layer_turn ::
  "jsenv \<Rightarrow> string \<Rightarrow> nat \<times> jsval \<Rightarrow> error + PropertyValue list \<times> MaterialInfo list" where
  "layer_turn E name il =
     (let i = fst il; layer = snd il
      in if nullish layer then Inl TypeError
         else
           let thickness =
                 (if truthy (get layer ''LayerThickness'')
                     \<and> get (get layer ''LayerThickness'') ''value'' \<noteq> JUndefined
                  then [\<lparr>pv_name = ''Layer '' @ string_of_nat (i + 1) @ '' Thickness'',
                         pv_value = JNum (Number_js E (get (get layer ''LayerThickness'') ''value'')),
                         pv_type = ''number''\<rparr>]
                  else [])
           in if truthy (get layer ''Material'') then
                let layerMaterialName = named_value E (get layer ''Material'') ''Unknown''
                in Inr (thickness @
                        [\<lparr>pv_name = ''Layer '' @ string_of_nat (i + 1) @ '' Material'',
                          pv_value = JStr layerMaterialName,
                          pv_type = ''string''\<rparr>],
                        [\<lparr>mi_name = layerMaterialName,
                          mi_category = Some ''Layer Material'',
                          mi_description =
                            Some (''Layer '' @ string_of_nat (i + 1) @ '' in '' @ name),
                          mi_properties = Some []\<rparr>])
              else Inr (thickness, []))"

definition profile_turn ::
  "jsenv \<Rightarrow> string \<Rightarrow> nat \<times> jsval \<Rightarrow> error + PropertyValue list \<times> MaterialInfo list" where
  "profile_turn E name ip =
     (let i = fst ip; profile = snd ip
      in if nullish profile then Inl TypeError
         else
           let profileName = named_value E profile (''Profile '' @ string_of_nat (i + 1));
               nameProp = [\<lparr>pv_name = ''Profile '' @ string_of_nat (i + 1) @ '' Name'',
                            pv_value = JStr profileName,
                            pv_type = ''string''\<rparr>]
           in if truthy (get profile ''Material'') then
                let profileMaterialName = named_value E (get profile ''Material'') ''Unknown''
                in Inr (nameProp @
                        [\<lparr>pv_name = ''Profile '' @ string_of_nat (i + 1) @ '' Material'',
                          pv_value = JStr profileMaterialName,
                          pv_type = ''string''\<rparr>],
                        [\<lparr>mi_name = profileMaterialName,
                          mi_category = Some ''Profile Material'',
                          mi_description =
                            Some (''Profile '' @ string_of_nat (i + 1) @ '' in '' @ name),
                          mi_properties = Some []\<rparr>])
              else Inr (nameProp, []))"

definition constituent_turn ::
  "jsenv \<Rightarrow> string \<Rightarrow> nat \<times> jsval \<Rightarrow> error + PropertyValue list \<times> MaterialInfo list" where
  "constituent_turn E name ic =
     (let i = fst ic; constituent = snd ic
      in if nullish constituent then Inl TypeError
         else
           let constituentName =
                 named_value E constituent (''Constituent '' @ string_of_nat (i + 1));
               nameProp = [\<lparr>pv_name = ''Constituent '' @ string_of_nat (i + 1) @ '' Name'',
                            pv_value = JStr constituentName,
                            pv_type = ''string''\<rparr>]
           in if truthy (get constituent ''Material'') then
                let constituentMaterialName =
                      named_value E (get constituent ''Material'') ''Unknown''
                in Inr (nameProp @
                        [\<lparr>pv_name = ''Constituent '' @ string_of_nat (i + 1) @ '' Material'',
                          pv_value = JStr constituentMaterialName,
                          pv_type = ''string''\<rparr>],
                        [\<lparr>mi_name = constituentMaterialName,
                          mi_category = Some ''Constituent Material'',
                          mi_description =
                            Some (''Constituent '' @ string_of_nat (i + 1) @ '' in '' @ name),
                          mi_properties = Some []\<rparr>])
              else Inr (nameProp, []))"

text \<open>
  The nested array of a composite material: \<^verbatim>\<open>material.K || []\<close>, walked when it is an
  array.
\<close>

definition nested_items :: "jsval \<Rightarrow> string \<Rightarrow> (nat \<times> jsval) list" where
  "nested_items material k =
     (case (if truthy (get material k) then get material k else JArr []) of
        JArr xs \<Rightarrow> indexed xs
      | _ \<Rightarrow> [])"

text \<open>One turn of the loop over the materials of an element.\<close>

definition material_turn :: "jsenv \<Rightarrow> jsval \<Rightarrow> error + MaterialInfo list" where
  "material_turn E material =
     (if \<not> truthy material then Inr []
      else
        let name = named_value E material ''Unnamed Material'';
            category = optional_string E material ''Category'';
            description = optional_string E material ''Description'';
            density =
              (if truthy (get material ''Density'')
                  \<and> get (get material ''Density'') ''value'' \<noteq> JUndefined
               then [\<lparr>pv_name = ''Density'',
                      pv_value = JNum (Number_js E (get (get material ''Density'') ''value'')),
                      pv_type = ''number''\<rparr>]
               else []);
            nested =
              (if get material ''type'' = JStr ''IFCMATERIAL'' then Inr ([], [])
               else if get material ''type'' = JStr ''IFCMATERIALLAYERSET''
                       \<or> truthy (get material ''MaterialLayers'')
                 then collect2 (layer_turn E name) (nested_items material ''MaterialLayers'')
               else if get material ''type'' = JStr ''IFCMATERIALPROFILESET''
                       \<or> truthy (get material ''MaterialProfiles'')
                 then collect2 (profile_turn E name) (nested_items material ''MaterialProfiles'')
               else if get material ''type'' = JStr ''IFCMATERIALCONSTITUENTSET''
                       \<or> truthy (get material ''MaterialConstituents'')
                 then collect2 (constituent_turn E name)
                        (nested_items material ''MaterialConstituents'')
               else Inr ([], []))
        in case nested of
             Inl e \<Rightarrow> Inl e
           | Inr (props, pushed) \<Rightarrow>
               Inr (pushed @
                    [\<lparr>mi_name = name,
                      mi_category = category,
                      mi_description = description,
                      mi_properties =
                        (if length (density @ props) > 0 then Some (density @ props) else None)\<rparr>]))"

text \<open>
  \<open>extractMaterialsInfo\<close>: the whole body stands in a \<^verbatim>\<open>try\<close>; the handler logs and returns
  the empty list.
\<close>

definition extractMaterialsInfo :: "jsenv \<Rightarrow> IfcAPI \<Rightarrow> nat \<Rightarrow> nat \<Rightarrow> MaterialInfo list" where
  "extractMaterialsInfo E api modelId elementId =
     (case getMaterialsProperties api modelId elementId of
        Inl e \<Rightarrow> []
      | Inr materials \<Rightarrow>
          (case collect (material_turn E) materials of
             Inl e \<Rightarrow> []
           | Inr result \<Rightarrow> result))"

text \<open>\<open>organizeStructuredMaterials\<close>.\<close>

definition has_property_like :: "string \<Rightarrow> string \<Rightarrow> MaterialInfo \<Rightarrow> bool" where
  "has_property_like a b m =
     (case mi_properties m of
        None \<Rightarrow> False
      | Some ps \<Rightarrow> list_ex (\<lambda>p. includes_str (pv_name p) a \<and> includes_str (pv_name p) b) ps)"

definition layer_at :: "jsenv \<Rightarrow> PropertyValue list \<Rightarrow> nat \<Rightarrow> MaterialLayer list" where
  "layer_at E props i =
     (case find (\<lambda>p. pv_name p = ''Layer '' @ string_of_nat i @ '' Thickness'') props of
        None \<Rightarrow> []
      | Some thicknessProp \<Rightarrow>
          (case find (\<lambda>p. pv_name p = ''Layer '' @ string_of_nat i @ '' Material'') props of
             None \<Rightarrow> []
           | Some materialProp \<Rightarrow>
               [\<lparr>ml_index = i,
                 ml_thickness = Number_js E (pv_value thicknessProp),
                 ml_material = String_js E (pv_value materialProp)\<rparr>]))"

definition scanned_layers :: "jsenv \<Rightarrow> PropertyValue list \<Rightarrow> MaterialLayer list" where
  "scanned_layers E props = concat (map (layer_at E props) [1..<21])"

definition layerSet_entry :: "jsenv \<Rightarrow> MaterialInfo \<Rightarrow> StructuredMaterialInfo list" where
  "layerSet_entry E layerSetMaterial =
     (case mi_properties layerSetMaterial of
        None \<Rightarrow> []
      | Some props \<Rightarrow>
          (let layers = scanned_layers E props
           in if length layers > 0 then
                [\<lparr>sm_name = mi_name layerSetMaterial,
                  sm_type = ''LayerSet'',
                  sm_layers = Some layers,
                  sm_properties =
                    Some (filter (\<lambda>p. \<not> includes_str (pv_name p) ''Layer'') props)\<rparr>]
              else []))"

definition set_entry :: "string \<Rightarrow> MaterialInfo \<Rightarrow> StructuredMaterialInfo list" where
  "set_entry kind m =
     (case mi_properties m of
        None \<Rightarrow> []
      | Some props \<Rightarrow>
          [\<lparr>sm_name = mi_name m, sm_type = kind, sm_layers = None, sm_properties = Some props\<rparr>])"

definition structured_sets :: "jsenv \<Rightarrow> MaterialInfo list \<Rightarrow> StructuredMaterialInfo list" where
  "structured_sets E materials =
     concat (map (layerSet_entry E) (filter (has_property_like ''Layer'' ''Thickness'') materials))
     @ concat (map (set_entry ''ProfileSet'') (filter (has_property_like ''Profile'' ''Name'') materials))
     @ concat (map (set_entry ''ConstituentSet'')
         (filter (has_property_like ''Constituent'' ''Name'') materials))"

definition processedMaterialNames :: "StructuredMaterialInfo list \<Rightarrow> string list" where
  "processedMaterialNames result =
     concat (map (\<lambda>r. case sm_layers r of None \<Rightarrow> [] | Some ls \<Rightarrow> map ml_material ls) result)
     @ map sm_name result"

definition simple_entry :: "string list \<Rightarrow> MaterialInfo \<Rightarrow> StructuredMaterialInfo list" where
  "simple_entry processed material =
     (if mi_name material \<notin> set processed
         \<and> mi_category material \<noteq> Some ''Layer Material''
         \<and> mi_category material \<noteq> Some ''Profile Material''
         \<and> mi_category material \<noteq> Some ''Constituent Material''
      then [\<lparr>sm_name = mi_name material, sm_type = ''Simple'', sm_layers = None,
             sm_properties = mi_properties material\<rparr>]
      else [])"

definition organizeStructuredMaterials ::
  "jsenv \<Rightarrow> MaterialInfo list \<Rightarrow> StructuredMaterialInfo list" where
  "organizeStructuredMaterials E materials =
     (let result = structured_sets E materials
      in result @ concat (map (simple_entry (processedMaterialNames result)) materials))"

text \<open>
  \<open>processModelElement\<close> and \<open>extractModelElements\<close> of IfcLoader.tsx: as above, with the
  property sets by the component's own \<open>extractAllProperties\<close>, the materials of the element
  and no raw data.
\<close>

record IfcModelElementM =
  em_id :: nat
  em_type :: string
  em_typeName :: string
  em_name :: string
  em_globalId :: "string option"
  em_propertySets :: "PropertySet list"
  em_materials :: "MaterialInfo list"
  em_structuredMaterials :: "StructuredMaterialInfo list option"
  em_rawElement :: "jsval option"

definition processModelElementM ::
  "jsenv \<Rightarrow> IfcAPI \<Rightarrow> nat \<Rightarrow> bool \<Rightarrow> SpatialNode \<Rightarrow> IfcModelElementM option" where
  "processModelElementM E api modelId includeAll node =
     (case GetLine api modelId (expressID node) of
        Inl e \<Rightarrow> None
      | Inr element \<Rightarrow>
          (case node_typeName api node of
             Inl e \<Rightarrow> None
           | Inr None \<Rightarrow> None
           | Inr (Some typeName) \<Rightarrow>
               (if \<not> isPhysicalElementByName typeName \<and> \<not> includeAll then None
                else if nullish element then None
                else
                  let materialsInfo = extractMaterialsInfo E api modelId (expressID node)
                  in Some \<lparr>em_id = expressID node,
                           em_type = typeName,
                           em_typeName = replace_Ifc typeName,
                           em_name = element_name E element (expressID node),
                           em_globalId = element_globalId E element,
                           em_propertySets =
                             extractAllPropertiesM E api modelId (expressID node),
                           em_materials = materialsInfo,
                           em_structuredMaterials =
                             Some (organizeStructuredMaterials E materialsInfo),
                           em_rawElement = None\<rparr>)))"

fun extractModelElementsM ::
  "jsenv \<Rightarrow> IfcAPI \<Rightarrow> nat \<Rightarrow> bool \<Rightarrow> SpatialNode \<Rightarrow> IfcModelElementM list" where
  "extractModelElementsM E api modelId includeAll (SpatialNode i t cs) =
     (case processModelElementM E api modelId includeAll (SpatialNode i t cs) of
        Some element \<Rightarrow> [element]
      | None \<Rightarrow> [])
     @ concat (map (extractModelElementsM E api modelId includeAll) cs)"

section \<open>The flat entity listing (SimpleIfcLoader.tsx, processFile)\<close>

record Quantity =
  q_name :: string
  q_value :: jsval
  q_unit :: "string option"
  q_type :: string

record QuantitySet =
  qs_name :: string
  qs_quantities :: "Quantity list"

record NamedInfo =
  ni_name :: string
  ni_description :: "string option"
  ni_properties :: jsval

record ParsedElement =
  pe_expressID :: nat
  pe_type :: jsval
  pe_typeName :: string
  pe_properties :: jsval
  pe_name :: string
  pe_quantities :: "QuantitySet list option"
  pe_materials :: "NamedInfo list option"
  pe_typeProperties :: "NamedInfo list option"

text \<open>The engine as this component declares it: the answers are tested before use.\<close>

record SimpleAPI =
  sGetLine :: "nat \<Rightarrow> nat \<Rightarrow> error + jsval"
  sGetPropertySets :: "nat \<Rightarrow> nat \<Rightarrow> error + jsval"
  sGetMaterialsProperties :: "nat \<Rightarrow> nat \<Rightarrow> error + jsval"
  sGetTypeProperties :: "nat \<Rightarrow> nat \<Rightarrow> error + jsval"

text \<open>
  The unit strings; the superscripts two and three are written as their UTF-8 bytes.
\<close>

definition unit_m2 :: string where
  "unit_m2 = ''m'' @ [CHR 0xC2, CHR 0xB2]"

definition unit_m3 :: string where
  "unit_m3 = ''m'' @ [CHR 0xC2, CHR 0xB3]"

text \<open>
  The value and the unit of a quantity: the first of the five fields that is not
  \<^verbatim>\<open>undefined\<close> decides; with none of them the value stays \<^verbatim>\<open>"Unknown"\<close> and the unit
  \<^verbatim>\<open>undefined\<close>. The field itself is converted, not its \<^verbatim>\<open>value\<close> member.
\<close>

definition value_and_unit :: "jsenv \<Rightarrow> jsval \<Rightarrow> jsval \<times> string option" where
  "value_and_unit E qProp =
     (if get qProp ''LengthValue'' \<noteq> JUndefined
        then (JNum (Number_js E (get qProp ''LengthValue'')), Some ''m'')
      else if get qProp ''AreaValue'' \<noteq> JUndefined
        then (JNum (Number_js E (get qProp ''AreaValue'')), Some unit_m2)
      else if get qProp ''VolumeValue'' \<noteq> JUndefined
        then (JNum (Number_js E (get qProp ''VolumeValue'')), Some unit_m3)
      else if get qProp ''WeightValue'' \<noteq> JUndefined
        then (JNum (Number_js E (get qProp ''WeightValue'')), Some ''kg'')
      else if get qProp ''CountValue'' \<noteq> JUndefined
        then (JNum (Number_js E (get qProp ''CountValue'')), Some ''count'')
      else (JStr ''Unknown'', None))"

definition object_name :: "jsenv \<Rightarrow> jsval \<Rightarrow> string \<Rightarrow> string" where
  "object_name E v dflt =
     (if truthy (get v ''Name'') \<and> typeof (get v ''Name'') = ''object''
         \<and> get (get v ''Name'') ''value'' \<noteq> JUndefined
      then String_js E (get (get v ''Name'') ''value'') else dflt)"

definition type_label :: "jsenv \<Rightarrow> schema_state \<Rightarrow> jsval \<Rightarrow> string" where
  "type_label E st t = (case t of JNum n \<Rightarrow> getTypeName E st n | _ \<Rightarrow> String_js E t)"

text \<open>One turn of the loop over \<^verbatim>\<open>pset.Quantities\<close>.\<close>

definition not_a_quantity :: "jsenv \<Rightarrow> schema_state \<Rightarrow> jsval \<Rightarrow> bool" where
  "not_a_quantity E st t =
     (case t of
        JNum n \<Rightarrow> \<not> includes_str (getTypeName E st n) ''IFCQUANTITY''
      | JStr s \<Rightarrow> \<not> includes_str s ''IFCQUANTITY''
      | _ \<Rightarrow> False)"

definition quantity_turn :: "jsenv \<Rightarrow> schema_state \<Rightarrow> jsval \<Rightarrow> error + Quantity list" where
  "quantity_turn E st qProp =
     (if nullish qProp then Inl TypeError
      else if \<not> truthy (get qProp ''type'') then Inr []
      else if not_a_quantity E st (get qProp ''type'') then Inr []
      else Inr [\<lparr>q_name = object_name E qProp ''Unknown'',
                 q_value = fst (value_and_unit E qProp),
                 q_unit = snd (value_and_unit E qProp),
                 q_type = type_label E st (get qProp ''type'')\<rparr>])"

text \<open>One turn of the loop over the property sets of an entity.\<close>

definition is_quantity_set :: "jsenv \<Rightarrow> schema_state \<Rightarrow> jsval \<Rightarrow> bool" where
  "is_quantity_set E st pset =
     (get pset ''type'' = JStr ''IFCELEMENTQUANTITY''
      \<or> (case get pset ''type'' of
            JNum n \<Rightarrow> getTypeName E st n = ''IFCELEMENTQUANTITY''
          | _ \<Rightarrow> False))"

definition pset_turn :: "jsenv \<Rightarrow> schema_state \<Rightarrow> jsval \<Rightarrow> error + QuantitySet list" where
  "pset_turn E st pset =
     (if nullish pset then Inl TypeError
      else if is_quantity_set E st pset then
        (case (case get pset ''Quantities'' of
                 JArr qs \<Rightarrow> collect (quantity_turn E st) qs
               | _ \<Rightarrow> Inr [])
         of Inl e \<Rightarrow> Inl e
          | Inr quantities \<Rightarrow>
              Inr (if length quantities > 0
                   then [\<lparr>qs_name = object_name E pset ''Unknown Quantity Set'',
                          qs_quantities = quantities\<rparr>]
                   else []))
      else Inr [])"

text \<open>
  The three guarded queries of an entity. Each stands in its own \<^verbatim>\<open>try\<close>: an error leaves
  the field of the element unset.
\<close>

definition entity_quantities ::
  "jsenv \<Rightarrow> schema_state \<Rightarrow> SimpleAPI \<Rightarrow> nat \<Rightarrow> nat \<Rightarrow> QuantitySet list option" where
  "entity_quantities E st api modelID entityID =
     (case sGetPropertySets api modelID entityID of
        Inl e \<Rightarrow> None
      | Inr (JArr propSets) \<Rightarrow>
          (case collect (pset_turn E st) propSets of
             Inl e \<Rightarrow> None
           | Inr quantitySets \<Rightarrow> (if length quantitySets > 0 then Some quantitySets else None))
      | Inr _ \<Rightarrow> None)"

definition named_info :: "jsenv \<Rightarrow> string \<Rightarrow> jsval \<Rightarrow> error + NamedInfo list" where
  "named_info E dflt v =
     (if nullish v then Inl TypeError
      else Inr [\<lparr>ni_name = object_name E v dflt,
                 ni_description =
                   (if truthy (get v ''Description'') \<and> typeof (get v ''Description'') = ''object''
                       \<and> get (get v ''Description'') ''value'' \<noteq> JUndefined
                    then Some (String_js E (get (get v ''Description'') ''value'')) else None),
                 ni_properties = v\<rparr>])"

definition named_infos :: "jsenv \<Rightarrow> string \<Rightarrow> error + jsval \<Rightarrow> NamedInfo list option" where
  "named_infos E dflt answer =
     (case answer of
        Inl e \<Rightarrow> None
      | Inr (JArr xs) \<Rightarrow>
          (if length xs > 0
           then (case collect (named_info E dflt) xs of Inl e \<Rightarrow> None | Inr infos \<Rightarrow> Some infos)
           else None)
      | Inr _ \<Rightarrow> None)"

text \<open>
  The body of the loop over the entity ids. \<open>new_element\<close> is the element object with the
  fields the three guarded queries set; \<open>process_entity\<close> is \<open>None\<close> when the entity is
  skipped (no type, a type that is neither number nor string, or an error, which the handler
  logs).
\<close>

definition new_element ::
  "jsenv \<Rightarrow> schema_state \<Rightarrow> SimpleAPI \<Rightarrow> nat \<Rightarrow> nat \<Rightarrow> jsval \<Rightarrow> string \<Rightarrow> ParsedElement" where
  "new_element E st api modelID entityID props typeName =
     \<lparr>pe_expressID = entityID,
      pe_type = get props ''type'',
      pe_typeName = typeName,
      pe_properties = props,
      pe_name =
        (if truthy (get props ''Name'') \<and> get (get props ''Name'') ''value'' \<noteq> JUndefined
           then String_js E (get (get props ''Name'') ''value'')
         else if truthy (get props ''GlobalId'')
                 \<and> get (get props ''GlobalId'') ''value'' \<noteq> JUndefined
           then String_js E (get (get props ''GlobalId'') ''value'')
         else ''Element #'' @ string_of_nat entityID),
      pe_quantities = entity_quantities E st api modelID entityID,
      pe_materials =
        named_infos E ''Unknown Material'' (sGetMaterialsProperties api modelID entityID),
      pe_typeProperties =
        named_infos E ''Unknown Type'' (sGetTypeProperties api modelID entityID)\<rparr>"

definition process_entity ::
  "jsenv \<Rightarrow> schema_state \<Rightarrow> SimpleAPI \<Rightarrow> nat \<Rightarrow> nat \<Rightarrow> ParsedElement option" where
  "process_entity E st api modelID entityID =
     (case sGetLine api modelID entityID of
        Inl e \<Rightarrow> None
      | Inr props \<Rightarrow>
          (if nullish props then None
           else if nullish (get props ''type'') then None
           else (case get props ''type'' of
                   JNum n \<Rightarrow>
                     Some (new_element E st api modelID entityID props (getTypeName E st n))
                 | JStr s \<Rightarrow> Some (new_element E st api modelID entityID props s)
                 | _ \<Rightarrow> None)))"

text \<open>
  The loop: \<^verbatim>\<open>elementsToShow = Math.min(allItems.size(), 100)\<close>, and the ids at the indexes
  below it are processed in order.
\<close>

definition elementsToShow :: "nat list \<Rightarrow> nat" where
  "elementsToShow allItems = min (length allItems) 100"

definition processed_elements ::
  "jsenv \<Rightarrow> schema_state \<Rightarrow> SimpleAPI \<Rightarrow> nat \<Rightarrow> nat list \<Rightarrow> ParsedElement list" where
  "processed_elements E st api modelID allItems =
     List.map_filter (\<lambda>i. process_entity E st api modelID (allItems ! i))
       [0..<elementsToShow allItems]"

text \<open>The filter applied when the debug mode is off.\<close>

definition has_data :: "jsenv \<Rightarrow> schema_state \<Rightarrow> ParsedElement \<Rightarrow> bool" where
  "has_data E st el =
     (if (case pe_quantities el of Some qs \<Rightarrow> length qs > 0 | None \<Rightarrow> False) then True
      else if (case pe_materials el of Some ms \<Rightarrow> length ms > 0 | None \<Rightarrow> False) then True
      else if (case pe_typeProperties el of Some ts \<Rightarrow> length ts > 0 | None \<Rightarrow> False) then True
      else includes_str (type_label E st (pe_type el)) ''IFC'')"

text \<open>
  \<^verbatim>\<open>Array.prototype.sort\<close> with a comparison function: a stable sort (an element stays
  before the later ones it compares equal to). \<open>localeCompare\<close> is the comparison of the
  host's locale and is a parameter.
\<close>

fun insert_by :: "('a \<Rightarrow> 'a \<Rightarrow> int) \<Rightarrow> 'a \<Rightarrow> 'a list \<Rightarrow> 'a list" where
  "insert_by cmp x [] = [x]"
| "insert_by cmp x (y # ys) = (if cmp x y \<le> 0 then x # y # ys else y # insert_by cmp x ys)"

definition sort_by :: "('a \<Rightarrow> 'a \<Rightarrow> int) \<Rightarrow> 'a list \<Rightarrow> 'a list" where
  "sort_by cmp xs = foldr (insert_by cmp) xs []"

definition parsedElements ::
  "jsenv \<Rightarrow> (string \<Rightarrow> string \<Rightarrow> int) \<Rightarrow> schema_state \<Rightarrow> bool \<Rightarrow> SimpleAPI \<Rightarrow> nat
     \<Rightarrow> nat list \<Rightarrow> ParsedElement list" where
  "parsedElements E localeCompare st debugMode api modelID allItems =
     (let elements = processed_elements E st api modelID allItems;
          elementsWithData = (if debugMode then elements else filter (has_data E st) elements)
      in sort_by (\<lambda>a b. localeCompare (type_label E st (pe_type a)) (type_label E st (pe_type b)))
           elementsWithData)"

section \<open>The JSON export (handleDownloadElements of both components)\<close>

text \<open>
  The objects of the components as values. Each record is the object its literal creates;
  an optional field that is not set holds \<^verbatim>\<open>undefined\<close>. (The literals of the
  \<^verbatim>\<open>ProfileSet\<close>, \<^verbatim>\<open>ConstituentSet\<close> and \<^verbatim>\<open>Simple\<close> entries have no \<^verbatim>\<open>layers\<close> property at
  all; a property that holds \<^verbatim>\<open>undefined\<close> reads and serializes the same.)
\<close>

definition js_opt :: "('a \<Rightarrow> jsval) \<Rightarrow> 'a option \<Rightarrow> jsval" where
  "js_opt f x = (case x of None \<Rightarrow> JUndefined | Some y \<Rightarrow> f y)"

definition js_nat :: "nat \<Rightarrow> jsval" where
  "js_nat n = JNum (Fin (of_nat n))"

definition js_PropertyValue :: "PropertyValue \<Rightarrow> jsval" where
  "js_PropertyValue p =
     JObj [(''name'', JStr (pv_name p)), (''value'', pv_value p), (''type'', JStr (pv_type p))]"

definition js_properties :: "PropertyValue list \<Rightarrow> jsval" where
  "js_properties ps = JArr (map js_PropertyValue ps)"

definition js_PropertySet :: "PropertySet \<Rightarrow> jsval" where
  "js_PropertySet s =
     JObj [(''name'', JStr (ps_name s)), (''properties'', js_properties (ps_properties s))]"

definition js_MaterialInfo :: "MaterialInfo \<Rightarrow> jsval" where
  "js_MaterialInfo m =
     JObj [(''name'', JStr (mi_name m)),
           (''category'', js_opt JStr (mi_category m)),
           (''description'', js_opt JStr (mi_description m)),
           (''properties'', js_opt js_properties (mi_properties m))]"

definition js_MaterialLayer :: "MaterialLayer \<Rightarrow> jsval" where
  "js_MaterialLayer l =
     JObj [(''index'', js_nat (ml_index l)), (''thickness'', JNum (ml_thickness l)),
           (''material'', JStr (ml_material l))]"

definition js_StructuredMaterialInfo :: "StructuredMaterialInfo \<Rightarrow> jsval" where
  "js_StructuredMaterialInfo e =
     JObj [(''name'', JStr (sm_name e)),
           (''type'', JStr (sm_type e)),
           (''layers'', js_opt (\<lambda>ls. JArr (map js_MaterialLayer ls)) (sm_layers e)),
           (''properties'', js_opt js_properties (sm_properties e))]"

text \<open>
  The element of IfcBuiltElementsLoader.tsx, which is serialized as it is, and the
  simplified element that \<open>handleDownloadElements\<close> of IfcLoader.tsx builds for the export
  (all fields but \<^verbatim>\<open>rawElement\<close>).
\<close>

definition js_IfcModelElement :: "IfcModelElement \<Rightarrow> jsval" where
  "js_IfcModelElement e =
     JObj [(''id'', js_nat (el_id e)),
           (''type'', JStr (el_type e)),
           (''typeName'', JStr (el_typeName e)),
           (''name'', JStr (el_name e)),
           (''globalId'', js_opt JStr (el_globalId e)),
           (''propertySets'', JArr (map js_PropertySet (el_propertySets e))),
           (''rawElement'', js_opt (\<lambda>v. v) (el_rawElement e))]"

definition exportElement :: "IfcModelElementM \<Rightarrow> jsval" where
  "exportElement e =
     JObj [(''id'', js_nat (em_id e)),
           (''type'', JStr (em_type e)),
           (''typeName'', JStr (em_typeName e)),
           (''name'', JStr (em_name e)),
           (''globalId'', js_opt JStr (em_globalId e)),
           (''propertySets'', JArr (map js_PropertySet (em_propertySets e))),
           (''materials'', JArr (map js_MaterialInfo (em_materials e))),
           (''structuredMaterials'',
              js_opt (\<lambda>ms. JArr (map js_StructuredMaterialInfo ms)) (em_structuredMaterials e))]"

text \<open>
  The value each \<open>handleDownloadElements\<close> hands to \<^verbatim>\<open>JSON.stringify\<close>; with no elements it
  returns before.
\<close>

definition exportElements :: "IfcModelElementM list \<Rightarrow> jsval option" where
  "exportElements elements =
     (if length elements = 0 then None else Some (JArr (map exportElement elements)))"

definition downloadElements :: "IfcModelElement list \<Rightarrow> jsval option" where
  "downloadElements elements =
     (if length elements = 0 then None else Some (JArr (map js_IfcModelElement elements)))"

text \<open>
  \<^verbatim>\<open>JSON.parse(JSON.stringify(v))\<close> on values, as the language defines the two built-ins: a
  property whose value is \<^verbatim>\<open>undefined\<close> is left out, an array item that is \<^verbatim>\<open>undefined\<close>
  and a number that is not finite are written as \<^verbatim>\<open>null\<close>, everything else is written so
  that parsing gives it back (strings by escaping, finite numbers by their shortest
  decimal that reads back as the same number). The exported value is always an array; on
  \<^verbatim>\<open>undefined\<close> itself, which \<^verbatim>\<open>JSON.stringify\<close> does not write, the function is the
  identity.
\<close>

fun json_roundtrip :: "jsval \<Rightarrow> jsval"
  and json_items :: "jsval list \<Rightarrow> jsval list"
  and json_fields :: "(string \<times> jsval) list \<Rightarrow> (string \<times> jsval) list" where
  "json_roundtrip (JNum n) = (case n of Fin r \<Rightarrow> JNum (Fin r) | _ \<Rightarrow> JNull)"
| "json_roundtrip (JArr xs) = JArr (json_items xs)"
| "json_roundtrip (JObj fs) = JObj (json_fields fs)"
| "json_roundtrip JUndefined = JUndefined"
| "json_roundtrip JNull = JNull"
| "json_roundtrip (JBool b) = JBool b"
| "json_roundtrip (JStr s) = JStr s"
| "json_items [] = []"
| "json_items (x # xs) =
     (if x = JUndefined then JNull else json_roundtrip x) # json_items xs"
| "json_fields [] = []"
| "json_fields (kv # fs) =
     (if snd kv = JUndefined then json_fields fs
      else (fst kv, json_roundtrip (snd kv)) # json_fields fs)"

section \<open>Notions used to state the round trip\<close>

text \<open>
  A value without the properties that hold \<^verbatim>\<open>undefined\<close>, at every depth: reading a field of
  it gives what reading the field of the value gives.
\<close>

fun defined_part :: "jsval \<Rightarrow> jsval"
  and defined_items :: "jsval list \<Rightarrow> jsval list"
  and defined_fields :: "(string \<times> jsval) list \<Rightarrow> (string \<times> jsval) list" where
  "defined_part (JArr xs) = JArr (defined_items xs)"
| "defined_part (JObj fs) = JObj (defined_fields fs)"
| "defined_part JUndefined = JUndefined"
| "defined_part JNull = JNull"
| "defined_part (JBool b) = JBool b"
| "defined_part (JNum n) = JNum n"
| "defined_part (JStr s) = JStr s"
| "defined_items [] = []"
| "defined_items (x # xs) = defined_part x # defined_items xs"
| "defined_fields [] = []"
| "defined_fields (kv # fs) =
     (if snd kv = JUndefined then defined_fields fs
      else (fst kv, defined_part (snd kv)) # defined_fields fs)"

text \<open>
  A value that JSON can carry: every number in it is finite and no array in it has an
  item that is \<^verbatim>\<open>undefined\<close>.
\<close>

fun json_carries :: "jsval \<Rightarrow> bool"
  and json_carries_items :: "jsval list \<Rightarrow> bool"
  and json_carries_fields :: "(string \<times> jsval) list \<Rightarrow> bool" where
  "json_carries (JNum n) = (case n of Fin r \<Rightarrow> True | _ \<Rightarrow> False)"
| "json_carries (JArr xs) = json_carries_items xs"
| "json_carries (JObj fs) = json_carries_fields fs"
| "json_carries JUndefined = True"
| "json_carries JNull = True"
| "json_carries (JBool b) = True"
| "json_carries (JStr s) = True"
| "json_carries_items [] = True"
| "json_carries_items (x # xs) = (x \<noteq> JUndefined \<and> json_carries x \<and> json_carries_items xs)"
| "json_carries_fields [] = True"
| "json_carries_fields (kv # fs) = (json_carries (snd kv) \<and> json_carries_fields fs)"

section \<open>Notions used to state the quantity rules\<close>

text \<open>
  The words of the specification, "the first one present determines the emitted value",
  over the fields each component tries and in the order it tries them: for
  \<open>extractPropertySet\<close> the holder with its default name, for the flat listing the field with
  its unit.
\<close>

definition tried_holders :: "(string \<times> string) list" where
  "tried_holders =
     [(''VolumeValue'', ''Volume''), (''AreaValue'', ''Area''), (''LengthValue'', ''Length'')]"

definition first_holder :: "jsval \<Rightarrow> (string \<times> string) option" where
  "first_holder item = find (\<lambda>kd. holder_present item (fst kd)) tried_holders"

definition tried_units :: "(string \<times> string) list" where
  "tried_units =
     [(''LengthValue'', ''m''), (''AreaValue'', unit_m2), (''VolumeValue'', unit_m3),
      (''WeightValue'', ''kg''), (''CountValue'', ''count'')]"

definition first_field :: "jsval \<Rightarrow> (string \<times> string) option" where
  "first_field qProp = find (\<lambda>ku. get qProp (fst ku) \<noteq> JUndefined) tried_units"

section \<open>Notions used to state the error policy\<close>

text \<open>
  The \<^verbatim>\<open>try\<close> block of \<open>extractAllProperties\<close> (of \<open>extractMaterialsInfo\<close>) raises for an
  element: the engine call does, or the loop over its answer does. (The naming branch in
  which the two components differ raises in neither, so the notion is the same for both.)
\<close>

definition properties_raise :: "jsenv \<Rightarrow> IfcAPI \<Rightarrow> nat \<Rightarrow> nat \<Rightarrow> bool" where
  "properties_raise E api modelId elementId =
     (case getPropertySets api modelId elementId of
        Inl e \<Rightarrow> True
      | Inr propertySets \<Rightarrow> isl (collect (nonempty_set E) propertySets))"

definition materials_raise :: "jsenv \<Rightarrow> IfcAPI \<Rightarrow> nat \<Rightarrow> nat \<Rightarrow> bool" where
  "materials_raise E api modelId elementId =
     (case getMaterialsProperties api modelId elementId of
        Inl e \<Rightarrow> True
      | Inr materials \<Rightarrow> isl (collect (material_turn E) materials))"

text \<open>
  The engine that differs from \<open>api\<close> only in the two queries for one element: where the
  query raised, it answers with the empty array.
\<close>

definition answering_empty :: "jsenv \<Rightarrow> IfcAPI \<Rightarrow> nat \<Rightarrow> nat \<Rightarrow> IfcAPI" where
  "answering_empty E api modelId elementId =
     api\<lparr>getPropertySets :=
           (\<lambda>m i. if m = modelId \<and> i = elementId \<and> properties_raise E api m i
                  then Inr [] else getPropertySets api m i),
         getMaterialsProperties :=
           (\<lambda>m i. if m = modelId \<and> i = elementId \<and> materials_raise E api m i
                  then Inr [] else getMaterialsProperties api m i)\<rparr>"

section \<open>Data for the worked examples\<close>

text \<open>
  An environment for the examples. It reads a run of decimal digits as that number and a
  string without any digit as \<open>NaN\<close>, and prints a non-negative integer in decimal; on these
  arguments it agrees with JavaScript (the examples use no empty string and no
  \<^verbatim>\<open>Infinity\<close>), and the examples apply it to no other.
\<close>

definition sample_env :: jsenv where
  "sample_env =
     \<lparr>StringToNumber =
        (\<lambda>s. if s \<noteq> [] \<and> list_all is_digit s then Fin (of_nat (parseInt10 s)) else NaN),
      NumberToString =
        (\<lambda>n. case code_key n of Some k \<Rightarrow> string_of_nat k | None \<Rightarrow> ''NaN'')\<rparr>"

text \<open>
  An engine for the examples: a model with the entities 1 (a storey), 2 (a wall) and 3 (a
  space). The property sets of the wall cannot be read; the space has one quantity set.
\<close>

definition sample_api :: IfcAPI where
  "sample_api =
     \<lparr>GetLine = (\<lambda>m i. Inr (JObj [(''expressID'', JNum (Fin (of_nat i)))])),
      GetNameFromTypeCode = (\<lambda>c. Inl (EngineError ''no such type code'')),
      getPropertySets =
        (\<lambda>m i. if i = 2 then Inl (EngineError ''property sets unreadable'')
               else if i = 3 then
                 Inr [[(''Name'', JObj [(''value'', JStr ''BaseQuantities'')]),
                       (''Quantities'',
                          JArr [JObj [(''Name'', JObj [(''value'', JStr ''NetFloorArea'')]),
                                      (''AreaValue'', JObj [(''value'', JNum (Fin 12.5))])]])]]
               else Inr []),
      getMaterialsProperties = (\<lambda>m i. Inr []),
      getTypeProperties = (\<lambda>m i. Inr [])\<rparr>"

definition sample_tree :: SpatialNode where
  "sample_tree =
     SpatialNode 1 (TypeName ''IFCBUILDINGSTOREY'')
       [SpatialNode 2 (TypeName ''IFCWALL'') [], SpatialNode 3 (TypeName ''IFCSPACE'') []]"

text \<open>
  A layered material as \<open>extractMaterialsInfo\<close> emits it, with \<open>k\<close> layers: the thickness and
  the material property of each layer, in the order of the layers.
\<close>

definition layer_properties :: "nat \<Rightarrow> PropertyValue list" where
  "layer_properties k =
     concat (map (\<lambda>i. [\<lparr>pv_name = ''Layer '' @ string_of_nat i @ '' Thickness'',
                           pv_value = JNum (Fin (of_nat i)), pv_type = ''number''\<rparr>,
                          \<lparr>pv_name = ''Layer '' @ string_of_nat i @ '' Material'',
                           pv_value = JStr (''M'' @ string_of_nat i), pv_type = ''string''\<rparr>])
             [1..<Suc k])"

definition layered_material :: "nat \<Rightarrow> MaterialInfo" where
  "layered_material k =
     \<lparr>mi_name = ''Build-up'', mi_category = None, mi_description = None,
      mi_properties = Some (layer_properties k)\<rparr>"




text \<open>
  An engine whose only property set holds a volume written as the text \<^verbatim>\<open>n/a\<close>.
\<close>

definition text_volume_api :: IfcAPI where
  "text_volume_api =
     sample_api\<lparr>getPropertySets :=
       (\<lambda>m i. Inr [[(''Name'', JObj [(''value'', JStr ''BaseQuantities'')]),
                    (''Quantities'',
                       JArr [JObj [(''Name'', JObj [(''value'', JStr ''NetVolume'')]),
                                   (''VolumeValue'', JObj [(''value'', JStr ''n/a'')])]])]])\<rparr>"
section \<open>Properties of the schema loader\<close>

lemma ifcSchema_foldl:
  "ifcSchema (foldl schema_step st ms) =
     ifcSchema st
       ++ map_of (rev (map (\<lambda>m. (fst m, parseInt10 (snd m)))
                         (filter (\<lambda>m. fst m \<noteq> ''__proto__'') ms)))"
  by (induction ms arbitrary: st) (simp_all add: schema_step_def Let_def)

lemma inverseIfcSchema_foldl:
  "inverseIfcSchema (foldl schema_step st ms) =
     inverseIfcSchema st ++ map_of (rev (map (\<lambda>m. (parseInt10 (snd m), fst m)) ms))"
  by (induction ms arbitrary: st) (simp_all add: schema_step_def Let_def)

lemma map_of_unique_iff:
  assumes "\<And>v'. (k, v') \<in> set xs \<Longrightarrow> (k, v) \<in> set xs \<Longrightarrow> v' = v"
  shows "map_of xs k = Some v \<longleftrightarrow> (k, v) \<in> set xs"
proof
  assume "map_of xs k = Some v"
  then show "(k, v) \<in> set xs" by (rule map_of_SomeD)
next
  assume in_xs: "(k, v) \<in> set xs"
  then obtain v' where v': "map_of xs k = Some v'"
    by (metis weak_map_of_SomeI)
  then have "(k, v') \<in> set xs" by (rule map_of_SomeD)
  with assms in_xs have "v' = v" by blast
  with v' show "map_of xs k = Some v" by simp
qed

lemma ifcSchema_load:
  "ifcSchema (loadIfcSchema (Some t))
     = map_of (rev (filter (\<lambda>(n, c). n \<noteq> ''__proto__'') (matched_entries t)))"
  by (simp add: loadIfcSchema_def ifcSchema_foldl schema_init_def matched_entries_def
        filter_map comp_def)

lemma inverseIfcSchema_load:
  "inverseIfcSchema (loadIfcSchema (Some t))
     = map_of (rev (map (\<lambda>(n, c). (c, n)) (matched_entries t)))"
  by (simp add: loadIfcSchema_def inverseIfcSchema_foldl schema_init_def matched_entries_def
        comp_def)

text \<open>
  C3, as the code has it. The two tables are filled by plain assignment, so a later entry
  overwrites an earlier one with the same name or the same code; the name \<^verbatim>\<open>__proto__\<close> is
  not stored in the forward table; and a code is the number written only below \<open>2^53\<close>.
  When the matched entries pair names and codes one to one, none is named \<^verbatim>\<open>__proto__\<close>
  and every code is below \<open>2^53\<close>, \<open>ifcSchema\<close> maps \<open>n\<close> to \<open>c\<close> exactly when
  \<open>inverseIfcSchema\<close> maps \<open>c\<close> to \<open>n\<close>, and exactly when \<open>(n, c)\<close> is a matched entry.
\<close>

theorem schema_maps_inverse:
  assumes "\<forall>(n, c) \<in> set (matched_entries t).
             \<forall>(n', c') \<in> set (matched_entries t). (n = n') = (c = c')"
    and "\<forall>(n, c) \<in> set (matched_entries t). n \<noteq> ''__proto__'' \<and> c < 2 ^ 53"
  shows "(ifcSchema (loadIfcSchema (Some t)) n = Some c
            \<longleftrightarrow> inverseIfcSchema (loadIfcSchema (Some t)) c = Some n)
       \<and> (ifcSchema (loadIfcSchema (Some t)) n = Some c \<longleftrightarrow> (n, c) \<in> set (matched_entries t))"
proof -
  let ?es = "matched_entries t"
  have stored: "filter (\<lambda>(n, c). n \<noteq> ''__proto__'') ?es = ?es"
    using assms(2) by (intro filter_True) fastforce
  have "map_of (rev ?es) n = Some c \<longleftrightarrow> (n, c) \<in> set (rev ?es)"
    using assms(1) by (intro map_of_unique_iff) fastforce
  then have fwd: "ifcSchema (loadIfcSchema (Some t)) n = Some c \<longleftrightarrow> (n, c) \<in> set ?es"
    by (simp add: ifcSchema_load stored)
  let ?is = "rev (map (\<lambda>(n, c). (c, n)) ?es)"
  have "map_of ?is c = Some n \<longleftrightarrow> (c, n) \<in> set ?is"
    using assms(1) by (intro map_of_unique_iff) fastforce
  then have "inverseIfcSchema (loadIfcSchema (Some t)) c = Some n \<longleftrightarrow> (n, c) \<in> set ?es"
    by (auto simp add: inverseIfcSchema_load)
  with fwd show ?thesis by simp
qed

theorem schema_maps_inverse_witness:
  "matched_entries ''export const IFCWALL = 12;export const IFCSLAB = 7;''
     = [(''IFCWALL'', 12), (''IFCSLAB'', 7)]
   \<and> ifcSchema (loadIfcSchema (Some ''export const IFCWALL = 12;export const IFCSLAB = 7;''))
        ''IFCSLAB'' = Some 7
   \<and> inverseIfcSchema (loadIfcSchema (Some ''export const IFCWALL = 12;export const IFCSLAB = 7;''))
        7 = Some ''IFCSLAB''"
proof -
  let ?t = "''export const IFCWALL = 12;export const IFCSLAB = 7;''"
  have me: "matched_entries ?t = [(''IFCWALL'', 12), (''IFCSLAB'', 7)]"
    by code_simp
  have one_to_one: "\<forall>(n, c) \<in> set (matched_entries ?t).
      \<forall>(n', c') \<in> set (matched_entries ?t). (n = n') = (c = c')"
    by (simp add: me)
  have plain: "\<forall>(n, c) \<in> set (matched_entries ?t). n \<noteq> ''__proto__'' \<and> c < 2 ^ 53"
    by (simp add: me)
  have "(''IFCSLAB'', 7) \<in> set (matched_entries ?t)"
    by (simp add: me)
  with schema_maps_inverse [OF one_to_one plain, of "''IFCSLAB''" 7] me
  show ?thesis by blast
qed

text \<open>
  C3 as stated fails: two names with one code. \<open>ifcSchema\<close> maps \<^verbatim>\<open>A\<close> to 1, and
  \<open>inverseIfcSchema\<close> maps 1 to \<^verbatim>\<open>B\<close>, the later entry. It fails also for the one entry
  named \<^verbatim>\<open>__proto__\<close>, which only the inverse table holds.
\<close>

theorem schema_maps_not_inverse:
  "ifcSchema (loadIfcSchema (Some ''export const A = 1;export const B = 1;'')) ''A'' = Some 1
   \<and> inverseIfcSchema (loadIfcSchema (Some ''export const A = 1;export const B = 1;'')) 1
       = Some ''B''
   \<and> matched_entries ''export const __proto__ = 5;'' = [(''__proto__'', 5)]
   \<and> ifcSchema (loadIfcSchema (Some ''export const __proto__ = 5;'')) ''__proto__'' = None
   \<and> inverseIfcSchema (loadIfcSchema (Some ''export const __proto__ = 5;'')) 5
       = Some ''__proto__''"
  by code_simp

text \<open>
  C7. For an integer type code that the inverse table does not hold (a negative code can
  hit no key), \<open>getTypeName\<close> returns the placeholder with the printed code between the
  parentheses. The function has no raising branch.
\<close>

theorem unknown_type_placeholder:
  assumes "c < 0 \<or> inverseIfcSchema st (nat c) = None"
  shows "getTypeName E st (Fin (of_int c))
       = ''Unknown Type ('' @ NumberToString E (Fin (of_int c)) @ '')''"
proof -
  have "inverse_lookup st (Fin (of_int c)) = None"
    using assms by (auto simp: inverse_lookup_def code_key_def)
  then show ?thesis by (simp add: getTypeName_def)
qed

theorem unknown_type_placeholder_witness:
  "inverseIfcSchema (loadIfcSchema (Some ''export const IFCWALL = 7;'')) (nat 42) = None
   \<and> getTypeName sample_env (loadIfcSchema (Some ''export const IFCWALL = 7;'')) (Fin 42)
       = ''Unknown Type (42)''
   \<and> getTypeName sample_env (loadIfcSchema (Some ''export const IFCWALL = 7;'')) (Fin 7)
       = ''IFCWALL''"
proof -
  let ?st = "loadIfcSchema (Some ''export const IFCWALL = 7;'')"
  have a: "inverseIfcSchema ?st (nat 42) = None" by code_simp
  have b: "inverseIfcSchema ?st 7 = Some ''IFCWALL''" by code_simp
  have p: "NumberToString sample_env (Fin 42) = ''42''"
    by (simp add: sample_env_def code_key_def string_of_nat.simps)
  have "getTypeName sample_env ?st (Fin (of_int 42))
       = ''Unknown Type ('' @ NumberToString sample_env (Fin (of_int 42)) @ '')''"
    using a by (intro unknown_type_placeholder) simp
  moreover have "getTypeName sample_env ?st (Fin 7) = ''IFCWALL''"
    using b by (simp add: getTypeName_def inverse_lookup_def code_key_def)
  ultimately show ?thesis using a p by simp
qed

section \<open>Properties of the spatial tree walk\<close>

lemma map_filter_append:
  "List.map_filter f (xs @ ys) = List.map_filter f xs @ List.map_filter f ys"
  by (simp add: List.map_filter_def)

lemma map_filter_concat:
  "List.map_filter f (concat xss) = concat (map (List.map_filter f) xss)"
  by (induction xss) (simp_all add: map_filter_append)

lemma length_map_filter_le: "length (List.map_filter f xs) \<le> length xs"
  by (induction xs) (simp_all split: option.split)

lemma length_preorder: "length (preorder t) = count_nodes t"
proof (induction t rule: preorder.induct)
  case (1 i t cs)
  have "map (\<lambda>x. length (preorder x)) cs = map count_nodes cs"
    using 1 by auto
  then have "sum_list (map (\<lambda>x. length (preorder x)) cs) = sum_list (map count_nodes cs)"
    by (rule arg_cong)
  then show ?case by (simp add: length_concat comp_def)
qed

lemma walk_map_filter:
  "extractModelElements E raw api mid incl tree =
     List.map_filter (processModelElement E raw api mid incl) (preorder tree)"
proof (induction tree rule: preorder.induct)
  case (1 i t cs)
  have "concat (map (extractModelElements E raw api mid incl) cs)
      = concat (map (List.map_filter (processModelElement E raw api mid incl) \<circ> preorder) cs)"
    using 1 by (auto intro!: arg_cong [where f = concat])
  then show ?case
    by (simp add: map_filter_concat comp_def split: option.split)
qed

text \<open>
  C4. The result of the walk is what \<open>processModelElement\<close> returns on the nodes of the
  tree taken in pre-order, each node once (the skipped nodes, on which it returns
  \<^verbatim>\<open>null\<close>, left out); the pre-order sequence holds each of the \<open>N\<close> nodes once and starts
  with the root; so the result has at most \<open>N\<close> elements.
\<close>

theorem walk_visits_preorder:
  "extractModelElements E raw api mid incl tree
     = List.map_filter (processModelElement E raw api mid incl) (preorder tree)
   \<and> length (preorder tree) = count_nodes tree
   \<and> hd (preorder tree) = tree
   \<and> length (extractModelElements E raw api mid incl tree) \<le> count_nodes tree"
proof -
  have "hd (preorder tree) = tree" by (cases tree) simp
  moreover have "length (extractModelElements E raw api mid incl tree) \<le> count_nodes tree"
    unfolding walk_map_filter using length_map_filter_le [of _ "preorder tree"]
    by (simp add: length_preorder)
  ultimately show ?thesis by (simp add: walk_map_filter length_preorder)
qed

lemma physical_IFCWALL: "isPhysicalElementByName ''IFCWALL''"
  by code_simp

lemma not_physical_IFCSPACE: "\<not> isPhysicalElementByName ''IFCSPACE''"
  by code_simp

text \<open>
  C5. A root whose type name is not on the allow-list, with the two children \<^verbatim>\<open>IFCWALL\<close>
  and \<^verbatim>\<open>IFCSPACE\<close>, the engine returning a record for each node. Without \<open>includeAll\<close> the
  walk yields the wall alone; with it the walk yields both children (after the root, which
  is then a candidate as well).
\<close>

theorem wall_space_scenario:
  assumes "\<not> isPhysicalElementByName rootType"
    and "GetLine api mid r = Inr re" and "\<not> nullish re"
    and "GetLine api mid w = Inr we" and "\<not> nullish we"
    and "GetLine api mid s = Inr se" and "\<not> nullish se"
  shows "map (\<lambda>e. (el_id e, el_type e))
           (extractModelElements E raw api mid False
              (SpatialNode r (TypeName rootType)
                 [SpatialNode w (TypeName ''IFCWALL'') [], SpatialNode s (TypeName ''IFCSPACE'') []]))
         = [(w, ''IFCWALL'')]
       \<and> map (\<lambda>e. (el_id e, el_type e))
           (extractModelElements E raw api mid True
              (SpatialNode r (TypeName rootType)
                 [SpatialNode w (TypeName ''IFCWALL'') [], SpatialNode s (TypeName ''IFCSPACE'') []]))
         = [(r, rootType), (w, ''IFCWALL''), (s, ''IFCSPACE'')]"
  using assms physical_IFCWALL not_physical_IFCSPACE
  by (simp add: processModelElement_def node_typeName_def)

theorem wall_space_scenario_witness:
  "\<not> isPhysicalElementByName ''IFCBUILDINGSTOREY''
   \<and> map (\<lambda>e. (el_id e, el_type e))
         (extractModelElements sample_env False sample_api 0 False sample_tree)
       = [(2, ''IFCWALL'')]
   \<and> map (\<lambda>e. (el_id e, el_type e))
         (extractModelElements sample_env False sample_api 0 True sample_tree)
       = [(1, ''IFCBUILDINGSTOREY''), (2, ''IFCWALL''), (3, ''IFCSPACE'')]"
proof -
  have np: "\<not> isPhysicalElementByName ''IFCBUILDINGSTOREY''" by code_simp
  have g: "GetLine sample_api 0 i = Inr (JObj [(''expressID'', JNum (Fin (of_nat i)))])" for i
    by (simp add: sample_api_def)
  have n: "\<not> nullish (JObj fs)" for fs by (simp add: nullish_def)
  from wall_space_scenario
         [where E = sample_env and raw = False, OF np g [of 1] n g [of 2] n g [of 3] n] np
  show ?thesis by (simp add: sample_tree_def)
qed

section \<open>The property names of the two components\<close>

text \<open>
  The naming branch in which the components differ. For a name that holds an assignment to
  \<^verbatim>\<open>Name.value\<close> IfcLoader.tsx takes the quoted text; IfcBuiltElementsLoader.tsx replaces the
  path to the nominal value, and there is none to replace. For a name that holds the path
  alone both give \<^verbatim>\<open>Property\<close>.
\<close>

lemma captured_property_name:
  "improved_nameM (''HasProperties[2].Name.value = '' @ [CHR 0x22] @ ''FireRating''
                     @ [CHR 0x22] @ '' NominalValue'') = ''FireRating''
   \<and> improved_name (''HasProperties[2].Name.value = '' @ [CHR 0x22] @ ''FireRating''
                     @ [CHR 0x22] @ '' NominalValue'')
       = ''HasProperties[2].Name.value = '' @ [CHR 0x22] @ ''FireRating''
           @ [CHR 0x22] @ '' NominalValue''
   \<and> improved_nameM ''HasProperties[2].NominalValue'' = ''Property''
   \<and> improved_name ''HasProperties[2].NominalValue'' = ''Property''"
  by code_simp

text \<open>
  The capitals of the type names: a ligature is spelt out, so that the test for a physical
  element finds the name in it.
\<close>

lemma capitals_of_names:
  "toUpperCase ''IfcWallStandardCase'' = ''IFCWALLSTANDARDCASE''
   \<and> toUpperCase ([CHR ''i'', CHR ''f'', CHR ''c'', CHR 0xEF, CHR 0xAC, CHR 0x86] @ ''air'')
       = ''IFCSTAIR''
   \<and> isPhysicalElementByName ''IfcWallStandardCase''"
  by code_simp

section \<open>Properties of the error policy\<close>

lemma properties_raise_iff:
  "properties_raise E api mid x \<longleftrightarrow>
     (case getPropertySets api mid x of
        Inl e \<Rightarrow> True
      | Inr sets \<Rightarrow> \<exists>s \<in> set sets. isl (extractPropertySet E s))"
proof -
  have c: "isl (collect f xs) \<longleftrightarrow> (\<exists>x \<in> set xs. isl (f x))"
    for f :: "'a \<Rightarrow> error + 'b list" and xs
    by (induction xs) (auto split: sum.splits)
  have n: "isl (nonempty_set E s) \<longleftrightarrow> isl (extractPropertySet E s)" for s
    by (simp add: nonempty_set_def split: sum.splits)
  show ?thesis
    by (simp add: properties_raise_def c n split: sum.splits)
qed

lemma collect_raises:
  "isl (collect f xs) \<longleftrightarrow> (\<exists>x \<in> set xs. isl (f x))"
  by (induction xs) (auto split: sum.splits)

lemma extractAllProperties_answering_empty:
  "extractAllProperties E (answering_empty E api mid x) mid i = extractAllProperties E api mid i"
  by (auto simp: extractAllProperties_def answering_empty_def properties_raise_def
           split: sum.splits)

lemma entry_propertiesM_raises:
  "isl (entry_propertiesM E names kv) = isl (entry_properties E names kv)"
  by (simp add: entry_propertiesM_def entry_properties_def Let_def
           split: jsval.splits option.splits)

lemma isl_bind:
  "isl (case x of Inl e \<Rightarrow> Inl e | Inr y \<Rightarrow> f y) = (isl x \<or> (\<exists>y. x = Inr y \<and> isl (f y)))"
  by (cases x) auto

lemma extractPropertySetM_raises:
  "isl (extractPropertySetM E s) = isl (extractPropertySet E s)"
proof -
  have c: "isl (collect (entry_propertiesM E names) s) = isl (collect (entry_properties E names) s)"
    for names
    by (simp add: collect_raises entry_propertiesM_raises)
  show ?thesis
    unfolding extractPropertySetM_def extractPropertySet_def Let_def
    by (simp add: isl_bind c)
qed

lemma nonempty_setM_raises:
  "isl (collect (nonempty_setM E) sets) = isl (collect (nonempty_set E) sets)"
proof -
  have "isl (nonempty_setM E s) = isl (nonempty_set E s)" for s
    unfolding nonempty_setM_def nonempty_set_def
    by (simp add: isl_bind extractPropertySetM_raises)
  then show ?thesis by (simp add: collect_raises)
qed

lemma extractAllPropertiesM_raise:
  assumes "properties_raise E api mid x"
  shows "extractAllPropertiesM E api mid x = []"
proof (cases "getPropertySets api mid x")
  case (Inl e)
  then show ?thesis by (simp add: extractAllPropertiesM_def)
next
  case (Inr sets)
  with assms have "isl (collect (nonempty_set E) sets)"
    by (simp add: properties_raise_def)
  then have "isl (collect (nonempty_setM E) sets)"
    by (simp only: nonempty_setM_raises)
  then obtain e where "collect (nonempty_setM E) sets = Inl e"
    by (auto simp: isl_def)
  with Inr show ?thesis by (simp add: extractAllPropertiesM_def)
qed

lemma extractAllPropertiesM_answering_empty:
  "extractAllPropertiesM E (answering_empty E api mid x) mid i
     = extractAllPropertiesM E api mid i"
  using extractAllPropertiesM_raise [of E api mid x]
  by (auto simp: extractAllPropertiesM_def answering_empty_def)

lemma extractMaterialsInfo_answering_empty:
  "extractMaterialsInfo E (answering_empty E api mid x) mid i = extractMaterialsInfo E api mid i"
  by (auto simp: extractMaterialsInfo_def answering_empty_def materials_raise_def
           split: sum.splits)

lemma processModelElementM_answering_empty:
  "processModelElementM E (answering_empty E api mid x) mid incl node
     = processModelElementM E api mid incl node"
proof -
  have g: "GetLine (answering_empty E api mid x) = GetLine api"
    and t: "node_typeName (answering_empty E api mid x) node = node_typeName api node"
    by (simp_all add: answering_empty_def node_typeName_def split: node_type.split)
  show ?thesis
    by (simp only: processModelElementM_def g t
          extractAllPropertiesM_answering_empty extractMaterialsInfo_answering_empty)
qed

lemma processModelElement_answering_empty:
  "processModelElement E raw (answering_empty E api mid x) mid incl node
     = processModelElement E raw api mid incl node"
proof -
  have g: "GetLine (answering_empty E api mid x) = GetLine api"
    and t: "node_typeName (answering_empty E api mid x) node = node_typeName api node"
    by (simp_all add: answering_empty_def node_typeName_def split: node_type.split)
  show ?thesis
    by (simp only: processModelElement_def g t extractAllProperties_answering_empty)
qed

lemma walkM_answering_empty:
  "extractModelElementsM E (answering_empty E api mid x) mid incl tree
     = extractModelElementsM E api mid incl tree"
proof (induction tree rule: preorder.induct)
  case (1 i t cs)
  have "concat (map (extractModelElementsM E (answering_empty E api mid x) mid incl) cs)
      = concat (map (extractModelElementsM E api mid incl) cs)"
    using 1 by (auto intro!: arg_cong [where f = concat])
  then show ?case by (simp add: processModelElementM_answering_empty)
qed

lemma walk_answering_empty:
  "extractModelElements E raw (answering_empty E api mid x) mid incl tree
     = extractModelElements E raw api mid incl tree"
proof (induction tree rule: preorder.induct)
  case (1 i t cs)
  have "concat (map (extractModelElements E raw (answering_empty E api mid x) mid incl) cs)
      = concat (map (extractModelElements E raw api mid incl) cs)"
    using 1 by (auto intro!: arg_cong [where f = concat])
  then show ?case by (simp add: processModelElement_answering_empty)
qed

text \<open>
  C6. When the \<^verbatim>\<open>try\<close> block of \<open>extractAllProperties\<close> (of either component) or of
  \<open>extractMaterialsInfo\<close> raises for an element, the function returns the empty list for
  that element; and the whole walk
  (of either component) returns what it returns when the engine answers the failing query
  with an empty array instead: the element itself is kept, every other element is as it
  would be without the error.
\<close>

theorem extraction_error_contained:
  assumes "properties_raise E api mid x \<or> materials_raise E api mid x"
  shows "(properties_raise E api mid x \<longrightarrow> extractAllProperties E api mid x = [])
       \<and> (properties_raise E api mid x \<longrightarrow> extractAllPropertiesM E api mid x = [])
       \<and> (materials_raise E api mid x \<longrightarrow> extractMaterialsInfo E api mid x = [])
       \<and> extractModelElementsM E api mid incl tree
           = extractModelElementsM E (answering_empty E api mid x) mid incl tree
       \<and> extractModelElements E raw api mid incl tree
           = extractModelElements E raw (answering_empty E api mid x) mid incl tree"
proof -
  have "properties_raise E api mid x \<longrightarrow> extractAllProperties E api mid x = []"
    by (auto simp: extractAllProperties_def properties_raise_def split: sum.splits)
  moreover have "properties_raise E api mid x \<longrightarrow> extractAllPropertiesM E api mid x = []"
    by (simp add: extractAllPropertiesM_raise)
  moreover have "materials_raise E api mid x \<longrightarrow> extractMaterialsInfo E api mid x = []"
    by (auto simp: extractMaterialsInfo_def materials_raise_def split: sum.splits)
  ultimately show ?thesis
    by (simp add: walkM_answering_empty walk_answering_empty)
qed

theorem extraction_error_contained_witness:
  "properties_raise sample_env sample_api 0 2
   \<and> extractAllProperties sample_env sample_api 0 2 = []
   \<and> extractAllPropertiesM sample_env sample_api 0 2 = []
   \<and> map (\<lambda>e. (em_id e, map ps_name (em_propertySets e)))
         (extractModelElementsM sample_env sample_api 0 True sample_tree)
       = [(1, []), (2, []), (3, [''BaseQuantities''])]
   \<and> extractModelElementsM sample_env sample_api 0 True sample_tree
       = extractModelElementsM sample_env (answering_empty sample_env sample_api 0 2) 0 True
           sample_tree"
proof -
  have r: "properties_raise sample_env sample_api 0 2"
    by (simp add: properties_raise_def sample_api_def)
  have w: "map (\<lambda>e. (em_id e, map ps_name (em_propertySets e)))
         (extractModelElementsM sample_env sample_api 0 True sample_tree)
       = [(1, []), (2, []), (3, [''BaseQuantities''])]"
    by code_simp
  from extraction_error_contained [of sample_env sample_api 0 2 True sample_tree False] r w
  show ?thesis by simp
qed

section \<open>Properties of the flat entity listing\<close>

lemma elementsToShow_take: "elementsToShow (take 100 xs) = elementsToShow xs"
  by (simp add: elementsToShow_def)

lemma map_filter_cong:
  "(\<And>x. x \<in> set xs \<Longrightarrow> f x = g x) \<Longrightarrow> List.map_filter f xs = List.map_filter g xs"
  by (induction xs) (simp_all split: option.split)

lemma processed_take:
  "processed_elements E st api mid (take 100 xs) = processed_elements E st api mid xs"
  unfolding processed_elements_def elementsToShow_take
  by (rule map_filter_cong) (simp add: elementsToShow_def)

lemma set_insert_by: "set (insert_by cmp x ys) = insert x (set ys)"
  by (induction ys) auto

lemma set_sort_by: "set (sort_by cmp xs) = set xs"
  by (induction xs) (simp_all add: sort_by_def set_insert_by)

lemma process_entity_id:
  assumes "process_entity E st api mid i = Some el"
  shows "pe_expressID el = i"
proof (cases "sGetLine api mid i")
  case (Inl a)
  with assms show ?thesis by (simp add: process_entity_def)
next
  case (Inr props)
  with assms have "\<exists>tn. el = new_element E st api mid i props tn"
    by (cases "get props ''type''") (auto simp: process_entity_def split: if_splits)
  then show ?thesis by (auto simp: new_element_def)
qed

lemma processed_ids:
  "pe_expressID ` set (processed_elements E st api mid xs) \<subseteq> set (take 100 xs)"
proof
  fix i assume "i \<in> pe_expressID ` set (processed_elements E st api mid xs)"
  then obtain k el where k: "k < elementsToShow xs"
    and el: "process_entity E st api mid (xs ! k) = Some el" and i: "i = pe_expressID el"
    by (auto simp: processed_elements_def List.map_filter_def)
  from el i have "i = xs ! k" by (simp add: process_entity_id)
  moreover from k have "xs ! k \<in> set (take 100 xs)"
    by (auto simp: elementsToShow_def in_set_conv_nth intro!: exI [of _ k])
  ultimately show "i \<in> set (take 100 xs)" by simp
qed

lemma take_100_nth:
  "map (\<lambda>i. xs ! i) [0..<elementsToShow xs] = take 100 xs"
proof -
  have "take 100 xs = map (\<lambda>i. take 100 xs ! i) [0..<length (take 100 xs)]"
    by (simp only: map_nth)
  also have "\<dots> = map (\<lambda>i. xs ! i) [0..<elementsToShow xs]"
    by (simp add: elementsToShow_def min.commute)
  finally show ?thesis by simp
qed

lemma processed_exactly:
  "processed_elements E st api mid xs
     = List.map_filter (process_entity E st api mid) (take 100 xs)"
proof -
  have "List.map_filter (process_entity E st api mid) (map (\<lambda>i. xs ! i) [0..<elementsToShow xs])
      = processed_elements E st api mid xs"
    by (simp add: processed_elements_def List.map_filter_def comp_def filter_map)
  then show ?thesis by (simp only: take_100_nth)
qed

lemma length_insert_by: "length (insert_by cmp x ys) = Suc (length ys)"
  by (induction ys) auto

lemma length_sort_by: "length (sort_by cmp xs) = length xs"
  by (induction xs) (simp_all add: sort_by_def length_insert_by)

text \<open>
  C10. Exactly the first \<open>min T 100\<close> entity ids are processed, in their order: the
  processed elements are the results of \<open>process_entity\<close> on the first 100 ids, those that
  yield no element dropped. The parsed output holds these elements (in debug mode all of
  them, otherwise those that pass the filter), each as often as it was produced, in the
  order of the sort. So the parsed output for a model is the parsed output for its first
  100 ids, every element of it carries one of these ids, and at most \<open>min T 100\<close>
  entities are processed.
\<close>

theorem only_first_100_processed:
  "processed_elements E st api mid allItems
     = List.map_filter (process_entity E st api mid) (take 100 allItems)
   \<and> set (parsedElements E localeCompare st debugMode api mid allItems)
       = (if debugMode
          then set (List.map_filter (process_entity E st api mid) (take 100 allItems))
          else {el \<in> set (List.map_filter (process_entity E st api mid) (take 100 allItems)).
                  has_data E st el})
   \<and> length (parsedElements E localeCompare st debugMode api mid allItems)
       = (if debugMode
          then length (List.map_filter (process_entity E st api mid) (take 100 allItems))
          else length (filter (has_data E st)
                 (List.map_filter (process_entity E st api mid) (take 100 allItems))))
   \<and> parsedElements E localeCompare st debugMode api mid allItems
       = parsedElements E localeCompare st debugMode api mid (take 100 allItems)
   \<and> pe_expressID ` set (parsedElements E localeCompare st debugMode api mid allItems)
       \<subseteq> set (take 100 allItems)
   \<and> length (processed_elements E st api mid allItems) \<le> min (length allItems) 100"
proof -
  let ?P = "List.map_filter (process_entity E st api mid) (take 100 allItems)"
  have exact: "processed_elements E st api mid allItems = ?P"
    by (rule processed_exactly)
  have members: "set (parsedElements E localeCompare st debugMode api mid allItems)
       = (if debugMode then set ?P else {el \<in> set ?P. has_data E st el})"
    by (simp add: parsedElements_def Let_def set_sort_by exact)
  have count: "length (parsedElements E localeCompare st debugMode api mid allItems)
       = (if debugMode then length ?P else length (filter (has_data E st) ?P))"
    by (simp add: parsedElements_def Let_def length_sort_by exact)
  have bound: "length (processed_elements E st api mid allItems) \<le> min (length allItems) 100"
    using length_map_filter_le [of "\<lambda>i. process_entity E st api mid (allItems ! i)"
            "[0..<elementsToShow allItems]"]
    by (simp add: processed_elements_def elementsToShow_def)
  have ids: "pe_expressID ` set (parsedElements E localeCompare st debugMode api mid allItems)
       \<subseteq> set (take 100 allItems)"
    using processed_ids [of E st api mid allItems]
    by (auto simp: parsedElements_def Let_def set_sort_by)
  have same: "parsedElements E localeCompare st debugMode api mid allItems
       = parsedElements E localeCompare st debugMode api mid (take 100 allItems)"
    by (simp add: parsedElements_def processed_take)
  from exact members count same ids bound show ?thesis
    by (intro conjI)
qed

section \<open>Properties of the structured materials\<close>

lemma includes_str_sublist: "includes_str s sub \<longleftrightarrow> sublist sub s"
  by (induction s) (simp_all add: sublist_Cons_right)

lemma includes_middle: "includes_str (a @ b @ c) b"
  unfolding includes_str_sublist sublist_def by blast

lemma includes_first: "includes_str (a @ c) a"
  using includes_middle [of "[]" a c] by simp

lemma includes_last: "includes_str (a @ c) c"
  using includes_middle [of a c "[]"] by simp

lemma layer_name_includes:
  "includes_str (''Layer '' @ n @ '' Thickness'') ''Layer''"
  "includes_str (''Layer '' @ n @ '' Thickness'') ''Thickness''"
  using includes_first [of "''Layer''" "'' '' @ n @ '' Thickness''"]
    includes_last [of "''Layer '' @ n @ '' ''" "''Thickness''"]
  by simp_all

lemma layer_at_found:
  assumes "\<exists>p \<in> set props. pv_name p = ''Layer '' @ string_of_nat i @ '' Thickness''"
    and "\<exists>p \<in> set props. pv_name p = ''Layer '' @ string_of_nat i @ '' Material''"
  shows "layer_at E props i =
     [\<lparr>ml_index = i,
       ml_thickness = Number_js E (pv_value (the
          (find (\<lambda>p. pv_name p = ''Layer '' @ string_of_nat i @ '' Thickness'') props))),
       ml_material = String_js E (pv_value (the
          (find (\<lambda>p. pv_name p = ''Layer '' @ string_of_nat i @ '' Material'') props)))\<rparr>]"
proof -
  from assms(1) obtain t where
    "find (\<lambda>p. pv_name p = ''Layer '' @ string_of_nat i @ '' Thickness'') props = Some t"
    by (cases "find (\<lambda>p. pv_name p = ''Layer '' @ string_of_nat i @ '' Thickness'') props")
       (auto simp: find_None_iff)
  moreover from assms(2) obtain m where
    "find (\<lambda>p. pv_name p = ''Layer '' @ string_of_nat i @ '' Material'') props = Some m"
    by (cases "find (\<lambda>p. pv_name p = ''Layer '' @ string_of_nat i @ '' Material'') props")
       (auto simp: find_None_iff)
  ultimately show ?thesis by (simp add: layer_at_def)
qed

lemma layer_at_index: "l \<in> set (layer_at E props i) \<Longrightarrow> ml_index l = i"
  by (auto simp: layer_at_def split: option.splits)

lemma scanned_layers_indexes:
  "l \<in> set (scanned_layers E props) \<Longrightarrow> ml_index l \<in> {1..20}"
  by (auto simp: scanned_layers_def dest!: layer_at_index)

lemma concat_singletons:
  assumes "\<And>i. i \<in> set ns \<Longrightarrow> f i = [g i]"
  shows "concat (map f ns) = map g ns"
  using assms by (induction ns) simp_all

lemma layerSet_entry_layers:
  "e \<in> set (layerSet_entry E m) \<Longrightarrow> sm_layers e = Some ls \<Longrightarrow> ml_index ` set ls \<subseteq> {1..20}"
  by (auto simp: layerSet_entry_def Let_def split: option.splits if_splits
        dest!: scanned_layers_indexes)

lemma set_entry_layers: "e \<in> set (set_entry kind m) \<Longrightarrow> sm_layers e = None"
  by (auto simp: set_entry_def split: option.splits)

lemma simple_entry_layers: "e \<in> set (simple_entry pr m) \<Longrightarrow> sm_layers e = None"
  by (auto simp: simple_entry_def split: if_splits)

lemma structured_layers_bounded:
  assumes "e \<in> set (organizeStructuredMaterials E materials)" and "sm_layers e = Some ls"
  shows "ml_index ` set ls \<subseteq> {1..20}"
proof -
  from assms(1) consider
      m where "e \<in> set (layerSet_entry E m)"
    | kind m where "e \<in> set (set_entry kind m)"
    | pr m where "e \<in> set (simple_entry pr m)"
    unfolding organizeStructuredMaterials_def Let_def structured_sets_def
    by auto
  then show ?thesis
  proof cases
    case 1
    then show ?thesis using assms(2) by (rule layerSet_entry_layers)
  next
    case 2
    with assms(2) show ?thesis by (simp add: set_entry_layers)
  next
    case 3
    with assms(2) show ?thesis by (simp add: simple_entry_layers)
  qed
qed

text \<open>
  C8. A material whose properties hold the pair \<^verbatim>\<open>Layer i Thickness\<close>, \<^verbatim>\<open>Layer i Material\<close>
  for every \<open>i\<close> from 1 to \<open>k\<close>, with \<open>k\<close> above 20: the structured output has the \<^verbatim>\<open>LayerSet\<close>
  entry of its name whose layers are exactly those of the indexes 1 to 20, in order, the
  layer \<open>i\<close> with the number of the value of the first property named \<^verbatim>\<open>Layer i Thickness\<close>
  for its thickness and the text of the value of the first property named
  \<^verbatim>\<open>Layer i Material\<close> for its material; the entry keeps the properties of the material whose
  names do not include \<^verbatim>\<open>Layer\<close>. The layers 21 to \<open>k\<close> are in no entry: no layer of any
  entry of the output has an index above 20.
\<close>

theorem layers_beyond_20_lost:
  assumes "m \<in> set materials" and "mi_properties m = Some props" and "20 < k"
    and "\<forall>i \<in> {1..k}.
           (\<exists>p \<in> set props. pv_name p = ''Layer '' @ string_of_nat i @ '' Thickness'')
         \<and> (\<exists>p \<in> set props. pv_name p = ''Layer '' @ string_of_nat i @ '' Material'')"
  shows "\<lparr>sm_name = mi_name m, sm_type = ''LayerSet'',
          sm_layers = Some (map (\<lambda>i.
             \<lparr>ml_index = i,
              ml_thickness = Number_js E (pv_value (the
                 (find (\<lambda>p. pv_name p = ''Layer '' @ string_of_nat i @ '' Thickness'') props))),
              ml_material = String_js E (pv_value (the
                 (find (\<lambda>p. pv_name p = ''Layer '' @ string_of_nat i @ '' Material'') props)))\<rparr>)
             [1..<21]),
          sm_properties = Some (filter (\<lambda>p. \<not> includes_str (pv_name p) ''Layer'') props)\<rparr>
         \<in> set (organizeStructuredMaterials E materials)
       \<and> (\<forall>e \<in> set (organizeStructuredMaterials E materials).
            \<forall>ls. sm_layers e = Some ls \<longrightarrow> ml_index ` set ls \<subseteq> {1..20})"
proof
  let ?layer = "\<lambda>i.
     \<lparr>ml_index = i,
      ml_thickness = Number_js E (pv_value (the
         (find (\<lambda>p. pv_name p = ''Layer '' @ string_of_nat i @ '' Thickness'') props))),
      ml_material = String_js E (pv_value (the
         (find (\<lambda>p. pv_name p = ''Layer '' @ string_of_nat i @ '' Material'') props)))\<rparr>"
  have scan: "scanned_layers E props = map ?layer [1..<21]"
    unfolding scanned_layers_def
    using assms(3,4) by (intro concat_singletons layer_at_found) auto
  then have "length (scanned_layers E props) = 20"
    by simp
  then have "scanned_layers E props \<noteq> []"
    by auto
  then have entry: "layerSet_entry E m =
     [\<lparr>sm_name = mi_name m, sm_type = ''LayerSet'', sm_layers = Some (scanned_layers E props),
       sm_properties = Some (filter (\<lambda>p. \<not> includes_str (pv_name p) ''Layer'') props)\<rparr>]"
    using assms(2) by (simp add: layerSet_entry_def Let_def)
  from assms(3) have "1 \<in> {1..k}" by simp
  with assms(4) obtain p where "p \<in> set props"
    and "pv_name p = ''Layer '' @ string_of_nat 1 @ '' Thickness''"
    by blast
  note p = this
  from p(2) have "includes_str (pv_name p) ''Layer'' \<and> includes_str (pv_name p) ''Thickness''"
    using layer_name_includes [of "string_of_nat 1"] by presburger
  with p(1) have "has_property_like ''Layer'' ''Thickness'' m"
    using assms(2) by (auto simp: has_property_like_def list_ex_iff)
  with assms(1) have "m \<in> set (filter (has_property_like ''Layer'' ''Thickness'') materials)"
    by simp
  then have "set (layerSet_entry E m) \<subseteq> set (structured_sets E materials)"
    unfolding structured_sets_def by auto
  with entry
  have "\<lparr>sm_name = mi_name m, sm_type = ''LayerSet'', sm_layers = Some (scanned_layers E props),
       sm_properties = Some (filter (\<lambda>p. \<not> includes_str (pv_name p) ''Layer'') props)\<rparr>
      \<in> set (organizeStructuredMaterials E materials)"
    by (simp add: organizeStructuredMaterials_def Let_def)
  then show "\<lparr>sm_name = mi_name m, sm_type = ''LayerSet'',
          sm_layers = Some (map ?layer [1..<21]),
          sm_properties = Some (filter (\<lambda>p. \<not> includes_str (pv_name p) ''Layer'') props)\<rparr>
         \<in> set (organizeStructuredMaterials E materials)"
    by (simp only: scan)
next
  show "\<forall>e \<in> set (organizeStructuredMaterials E materials).
            \<forall>ls. sm_layers e = Some ls \<longrightarrow> ml_index ` set ls \<subseteq> {1..20}"
    using structured_layers_bounded by blast
qed

lemma concat_map_member: "x \<in> set xs \<Longrightarrow> y \<in> set (f x) \<Longrightarrow> y \<in> set (concat (map f xs))"
  by auto

lemma layer_properties_has:
  assumes "i \<in> {1..k}"
  shows "(\<exists>p \<in> set (layer_properties k).
            pv_name p = ''Layer '' @ string_of_nat i @ '' Thickness'')
       \<and> (\<exists>p \<in> set (layer_properties k).
            pv_name p = ''Layer '' @ string_of_nat i @ '' Material'')"
proof -
  from assms have i: "i \<in> set [1..<Suc k]" by auto
  let ?t = "\<lparr>pv_name = ''Layer '' @ string_of_nat i @ '' Thickness'',
                           pv_value = JNum (Fin (of_nat i)), pv_type = ''number''\<rparr>"
  let ?m = "\<lparr>pv_name = ''Layer '' @ string_of_nat i @ '' Material'',
                           pv_value = JStr (''M'' @ string_of_nat i), pv_type = ''string''\<rparr>"
  have "?t \<in> set (layer_properties k)"
    unfolding layer_properties_def by (rule concat_map_member [OF i]) simp
  moreover have "?m \<in> set (layer_properties k)"
    unfolding layer_properties_def by (rule concat_map_member [OF i]) simp
  ultimately show ?thesis
    by (metis PropertyValue.select_convs(1))
qed

theorem layers_beyond_20_lost_witness:
  "organizeStructuredMaterials sample_env [layered_material 21]
     = [\<lparr>sm_name = ''Build-up'', sm_type = ''LayerSet'',
         sm_layers = Some (map (\<lambda>i. \<lparr>ml_index = i, ml_thickness = Fin (of_nat i),
                                      ml_material = ''M'' @ string_of_nat i\<rparr>) [1..<21]),
         sm_properties = Some []\<rparr>]
   \<and> list_ex (\<lambda>p. pv_name p = ''Layer 21 Thickness'') (layer_properties 21)
   \<and> list_ex (\<lambda>p. pv_name p = ''Layer 21 Material'') (layer_properties 21)
   \<and> \<lparr>sm_name = mi_name (layered_material 21), sm_type = ''LayerSet'',
       sm_layers = Some (map (\<lambda>i.
          \<lparr>ml_index = i,
           ml_thickness = Number_js sample_env (pv_value (the
              (find (\<lambda>p. pv_name p = ''Layer '' @ string_of_nat i @ '' Thickness'')
                 (layer_properties 21)))),
           ml_material = String_js sample_env (pv_value (the
              (find (\<lambda>p. pv_name p = ''Layer '' @ string_of_nat i @ '' Material'')
                 (layer_properties 21))))\<rparr>)
          [1..<21]),
       sm_properties =
         Some (filter (\<lambda>p. \<not> includes_str (pv_name p) ''Layer'') (layer_properties 21))\<rparr>
      \<in> set (organizeStructuredMaterials sample_env [layered_material 21])"
proof -
  have a: "organizeStructuredMaterials sample_env [layered_material 21]
     = [\<lparr>sm_name = ''Build-up'', sm_type = ''LayerSet'',
         sm_layers = Some (map (\<lambda>i. \<lparr>ml_index = i, ml_thickness = Fin (of_nat i),
                                      ml_material = ''M'' @ string_of_nat i\<rparr>) [1..<21]),
         sm_properties = Some []\<rparr>]"
    by code_simp
  have b: "list_ex (\<lambda>p. pv_name p = ''Layer 21 Thickness'') (layer_properties 21)"
    by code_simp
  have b': "list_ex (\<lambda>p. pv_name p = ''Layer 21 Material'') (layer_properties 21)"
    by code_simp
  have h: "\<forall>i \<in> {1..21}.
           (\<exists>p \<in> set (layer_properties 21).
              pv_name p = ''Layer '' @ string_of_nat i @ '' Thickness'')
         \<and> (\<exists>p \<in> set (layer_properties 21).
              pv_name p = ''Layer '' @ string_of_nat i @ '' Material'')"
    using layer_properties_has [of _ 21] by blast
  have m: "layered_material 21 \<in> set [layered_material 21]"
    and p: "mi_properties (layered_material 21) = Some (layer_properties 21)"
    by (simp_all add: layered_material_def)
  have k: "(20::nat) < 21"
    by simp
  note c = layers_beyond_20_lost [OF m p k h, of sample_env, THEN conjunct1]
  from a b b' c show ?thesis
    by (intro conjI)
qed






section \<open>Properties of the quantity rules\<close>

lemma Quantities_item_first:
  assumes "\<not> nullish item"
  shows "Quantities_item E item =
     Inr (case first_holder item of
            None \<Rightarrow> []
          | Some kd \<Rightarrow>
              [\<lparr>pv_name = quantity_name E item (snd kd),
                pv_value = JNum (Number_js E (get (get item (fst kd)) ''value'')),
                pv_type = ''number''\<rparr>])"
  using assms
  by (simp add: Quantities_item_def first_holder_def tried_holders_def quantity_value_def)

lemma value_and_unit_unit:
  "snd (value_and_unit E qProp) = map_option snd (first_field qProp)"
  by (simp add: value_and_unit_def first_field_def tried_units_def)

lemma value_and_unit_none:
  "first_field qProp = None \<Longrightarrow> value_and_unit E qProp = (JStr ''Unknown'', None)"
  by (simp add: value_and_unit_def first_field_def tried_units_def split: if_splits)

lemma value_and_unit_number:
  "first_field qProp = Some ku \<Longrightarrow> \<exists>n. fst (value_and_unit E qProp) = JNum n"
  by (simp add: value_and_unit_def first_field_def tried_units_def split: if_splits)

text \<open>
  C1, as the code has it. In \<open>extractPropertySet\<close> the items of the array \<^verbatim>\<open>Quantities\<close> are
  handled one by one; for an item (not null) the first present among \<^verbatim>\<open>VolumeValue\<close>,
  \<^verbatim>\<open>AreaValue\<close>, \<^verbatim>\<open>LengthValue\<close>, in this order, gives the one value pushed (the number of
  its \<^verbatim>\<open>value\<close> member, of type \<^verbatim>\<open>number\<close>; a property value has no unit), and an item with
  none of the three pushes nothing. An item whose \<^verbatim>\<open>AreaValue.value\<close> is 12.5 and that has no
  \<^verbatim>\<open>VolumeValue\<close> pushes the value 12.5 under the item's name, or \<^verbatim>\<open>Area\<close> without one.

  The units belong to the flat listing. There a quantity with a type that is a quantity
  type is always emitted, one for the item; its unit is that of the first of the five
  fields that is not undefined and its value is then a number; with none of the five the
  quantity is emitted all the same, with the value \<^verbatim>\<open>Unknown\<close> and no unit.
\<close>

theorem quantity_first_present:
  assumes "\<not> nullish item"
  shows "entry_properties E propertyNames (''Quantities'', JArr items)
           = collect (Quantities_item E) items
       \<and> Quantities_item E item =
           Inr (case first_holder item of
                  None \<Rightarrow> []
                | Some kd \<Rightarrow>
                    [\<lparr>pv_name = quantity_name E item (snd kd),
                      pv_value = JNum (Number_js E (get (get item (fst kd)) ''value'')),
                      pv_type = ''number''\<rparr>])
       \<and> (get item ''AreaValue'' = JObj [(''value'', JNum (Fin 12.5))]
            \<and> \<not> holder_present item ''VolumeValue''
          \<longrightarrow> Quantities_item E item =
                Inr [\<lparr>pv_name = (if truthy (opt_get (get item ''Name'') ''value'')
                                   then String_js E (get (get item ''Name'') ''value'')
                                   else ''Area''),
                      pv_value = JNum (Fin 12.5), pv_type = ''number''\<rparr>])
       \<and> (truthy (get item ''type'') \<and> \<not> not_a_quantity E st (get item ''type'')
          \<longrightarrow> (\<exists>q. quantity_turn E st item = Inr [q]
                  \<and> q_name q = object_name E item ''Unknown''
                  \<and> q_type q = type_label E st (get item ''type'')
                  \<and> q_unit q = map_option snd (first_field item)
                  \<and> (case first_field item of
                        None \<Rightarrow> q_value q = JStr ''Unknown''
                      | Some ku \<Rightarrow> \<exists>n. q_value q = JNum n)))"
proof -
  have "entry_properties E propertyNames (''Quantities'', JArr items)
           = collect (Quantities_item E) items"
    by (simp add: entry_properties_def skipped_keys_def)
  moreover have "Quantities_item E item =
                Inr [\<lparr>pv_name = (if truthy (opt_get (get item ''Name'') ''value'')
                                   then String_js E (get (get item ''Name'') ''value'')
                                   else ''Area''),
                      pv_value = JNum (Fin 12.5), pv_type = ''number''\<rparr>]"
    if "get item ''AreaValue'' = JObj [(''value'', JNum (Fin 12.5))]"
      and "\<not> holder_present item ''VolumeValue''"
    using that assms
    by (simp add: Quantities_item_def holder_present_def quantity_value_def quantity_name_def
          get_def)
  moreover have "\<exists>q. quantity_turn E st item = Inr [q]
                  \<and> q_name q = object_name E item ''Unknown''
                  \<and> q_type q = type_label E st (get item ''type'')
                  \<and> q_unit q = map_option snd (first_field item)
                  \<and> (case first_field item of
                        None \<Rightarrow> q_value q = JStr ''Unknown''
                      | Some ku \<Rightarrow> \<exists>n. q_value q = JNum n)"
    if "truthy (get item ''type'')" and "\<not> not_a_quantity E st (get item ''type'')"
  proof -
    have turn: "quantity_turn E st item =
        Inr [\<lparr>q_name = object_name E item ''Unknown'',
               q_value = fst (value_and_unit E item),
               q_unit = snd (value_and_unit E item),
               q_type = type_label E st (get item ''type'')\<rparr>]"
      using that assms by (simp add: quantity_turn_def)
    have "case first_field item of
            None \<Rightarrow> fst (value_and_unit E item) = JStr ''Unknown''
          | Some ku \<Rightarrow> \<exists>n. fst (value_and_unit E item) = JNum n"
      using value_and_unit_none [of item E] value_and_unit_number [of item _ E]
      by (cases "first_field item") simp_all
    then show ?thesis
      unfolding turn by (simp add: value_and_unit_unit split: option.splits)
  qed
  ultimately show ?thesis
    using Quantities_item_first [OF assms] by blast
qed

text \<open>
  C1 as stated fails. In \<open>extractPropertySet\<close> an item that holds only a \<^verbatim>\<open>WeightValue\<close>
  pushes nothing, and an item with a \<^verbatim>\<open>LengthValue\<close> and a \<^verbatim>\<open>VolumeValue\<close> pushes the
  volume. In the flat listing a quantity with none of the five fields is not skipped.
\<close>

theorem quantity_not_five_fields:
  "Quantities_item sample_env (JObj [(''WeightValue'', JObj [(''value'', JNum (Fin 5))])]) = Inr []
   \<and> Quantities_item sample_env
        (JObj [(''LengthValue'', JObj [(''value'', JNum (Fin 1))]),
               (''VolumeValue'', JObj [(''value'', JNum (Fin 2))])])
       = Inr [\<lparr>pv_name = ''Volume'', pv_value = JNum (Fin 2), pv_type = ''number''\<rparr>]
   \<and> quantity_turn sample_env schema_init (JObj [(''type'', JStr ''IFCQUANTITYLENGTH'')])
       = Inr [\<lparr>q_name = ''Unknown'', q_value = JStr ''Unknown'', q_unit = None,
                q_type = ''IFCQUANTITYLENGTH''\<rparr>]"
  by code_simp

theorem quantity_first_present_witness:
  "extractPropertySet sample_env
     [(''Name'', JObj [(''value'', JStr ''BaseQuantities'')]),
      (''Quantities'',
         JArr [JObj [(''Name'', JObj [(''value'', JStr ''NetFloorArea'')]),
                     (''AreaValue'', JObj [(''value'', JNum (Fin 12.5))])],
               JObj [(''AreaValue'', JObj [(''value'', JNum (Fin 12.5))])],
               JObj [(''CountValue'', JObj [(''value'', JNum (Fin 3))])]])]
   = Inr \<lparr>ps_name = ''BaseQuantities'',
           ps_properties =
             [\<lparr>pv_name = ''NetFloorArea'', pv_value = JNum (Fin 12.5), pv_type = ''number''\<rparr>,
              \<lparr>pv_name = ''Area'', pv_value = JNum (Fin 12.5), pv_type = ''number''\<rparr>]\<rparr>
   \<and> Quantities_item sample_env
        (JObj [(''type'', JStr ''IFCQUANTITYAREA''),
               (''AreaValue'', JObj [(''value'', JNum (Fin 12.5))])])
       = Inr [\<lparr>pv_name = ''Area'', pv_value = JNum (Fin 12.5), pv_type = ''number''\<rparr>]
   \<and> (\<exists>q. quantity_turn sample_env schema_init
              (JObj [(''type'', JStr ''IFCQUANTITYAREA''),
                     (''AreaValue'', JObj [(''value'', JNum (Fin 12.5))])]) = Inr [q]
          \<and> q_name q = ''Unknown'' \<and> q_type q = ''IFCQUANTITYAREA''
          \<and> q_unit q = Some unit_m2)"
proof -
  let ?item = "JObj [(''type'', JStr ''IFCQUANTITYAREA''),
                     (''AreaValue'', JObj [(''value'', JNum (Fin 12.5))])]"
  have a: "extractPropertySet sample_env
     [(''Name'', JObj [(''value'', JStr ''BaseQuantities'')]),
      (''Quantities'',
         JArr [JObj [(''Name'', JObj [(''value'', JStr ''NetFloorArea'')]),
                     (''AreaValue'', JObj [(''value'', JNum (Fin 12.5))])],
               JObj [(''AreaValue'', JObj [(''value'', JNum (Fin 12.5))])],
               JObj [(''CountValue'', JObj [(''value'', JNum (Fin 3))])]])]
   = Inr \<lparr>ps_name = ''BaseQuantities'',
           ps_properties =
             [\<lparr>pv_name = ''NetFloorArea'', pv_value = JNum (Fin 12.5), pv_type = ''number''\<rparr>,
              \<lparr>pv_name = ''Area'', pv_value = JNum (Fin 12.5), pv_type = ''number''\<rparr>]\<rparr>"
    by code_simp
  have n: "\<not> nullish ?item" by (simp add: nullish_def)
  have g: "get ?item ''AreaValue'' = JObj [(''value'', JNum (Fin 12.5))]"
    and v: "\<not> holder_present ?item ''VolumeValue''"
    and nm: "\<not> truthy (opt_get (get ?item ''Name'') ''value'')"
    by (simp_all add: get_def holder_present_def opt_get_def nullish_def)
  have t: "truthy (get ?item ''type'')"
    and q: "\<not> not_a_quantity sample_env schema_init (get ?item ''type'')"
    by code_simp+
  have f: "map_option snd (first_field ?item) = Some unit_m2"
    by code_simp
  have on: "object_name sample_env ?item ''Unknown'' = ''Unknown''"
    and tl: "type_label sample_env schema_init (get ?item ''type'') = ''IFCQUANTITYAREA''"
    by code_simp+
  note inst = quantity_first_present [OF n, where E = sample_env and st = schema_init
      and propertyNames = Map.empty and items = "[]"]
  from inst
  have "get ?item ''AreaValue'' = JObj [(''value'', JNum (Fin 12.5))]
            \<and> \<not> holder_present ?item ''VolumeValue''
          \<longrightarrow> Quantities_item sample_env ?item =
                Inr [\<lparr>pv_name = (if truthy (opt_get (get ?item ''Name'') ''value'')
                                   then String_js sample_env (get (get ?item ''Name'') ''value'')
                                   else ''Area''),
                      pv_value = JNum (Fin 12.5), pv_type = ''number''\<rparr>]"
    by (elim conjE)
  with g v nm
  have b: "Quantities_item sample_env ?item
       = Inr [\<lparr>pv_name = ''Area'', pv_value = JNum (Fin 12.5), pv_type = ''number''\<rparr>]"
    by presburger
  from inst t q
  have "\<exists>q. quantity_turn sample_env schema_init ?item = Inr [q]
          \<and> q_name q = object_name sample_env ?item ''Unknown''
          \<and> q_type q = type_label sample_env schema_init (get ?item ''type'')
          \<and> q_unit q = map_option snd (first_field ?item)"
    by blast
  then have c: "\<exists>q. quantity_turn sample_env schema_init ?item = Inr [q]
          \<and> q_name q = ''Unknown'' \<and> q_type q = ''IFCQUANTITYAREA''
          \<and> q_unit q = Some unit_m2"
    by (simp only: f on tl)
  from a b c show ?thesis
    by (intro conjI)
qed

text \<open>
  In the flat listing the field itself is converted, not its \<^verbatim>\<open>value\<close> member: for a plain
  number the value is that number, for a holder \<^verbatim>\<open>{value: 12.5}\<close> it is \<open>NaN\<close>.
\<close>

lemma value_and_unit_of_field:
  "value_and_unit sample_env (JObj [(''AreaValue'', JNum (Fin 12.5))])
     = (JNum (Fin 12.5), Some unit_m2)
   \<and> value_and_unit sample_env (JObj [(''AreaValue'', JObj [(''value'', JNum (Fin 12.5))])])
     = (JNum NaN, Some unit_m2)"
  by code_simp

section \<open>Properties of the JSON export\<close>

lemma roundtrip_defined:
  "json_carries v \<Longrightarrow> json_roundtrip v = defined_part v"
  "json_carries_items xs \<Longrightarrow> json_items xs = defined_items xs"
  "json_carries_fields fs \<Longrightarrow> json_fields fs = defined_fields fs"
  by (induction v and xs and fs rule: json_roundtrip_json_items_json_fields.induct)
     (auto split: jsnum.splits)

lemma defined_items_map: "defined_items xs = map defined_part xs"
  by (induction xs) simp_all

lemma map_of_defined_fields:
  assumes "distinct (map fst fs)"
  shows "map_of (defined_fields fs) k =
     (case map_of fs k of
        None \<Rightarrow> None
      | Some v \<Rightarrow> (if v = JUndefined then None else Some (defined_part v)))"
  using assms
proof (induction fs)
  case Nil
  then show ?case by simp
next
  case (Cons kv fs)
  then have "map_of fs (fst kv) = None"
    by (simp add: map_of_eq_None_iff)
  with Cons show ?case
    by (cases kv) (auto split: option.splits)
qed

lemma get_defined_part:
  assumes "distinct (map fst fs)"
  shows "get (defined_part (JObj fs)) k = defined_part (get (JObj fs) k)"
  by (simp add: get_def map_of_defined_fields [OF assms] split: option.splits)

lemma distinct_exportElement:
  "exportElement e = JObj fs \<Longrightarrow> distinct (map fst fs)"
  by (auto simp: exportElement_def)

lemma distinct_js_IfcModelElement:
  "js_IfcModelElement e = JObj fs \<Longrightarrow> distinct (map fst fs)"
  by (auto simp: js_IfcModelElement_def)

text \<open>
  C9, as the code has it. When every value of the exported list is one that JSON can carry
  (every number finite, no array item undefined), parsing the serialized list gives, element
  by element, the exported record without the fields that held \<^verbatim>\<open>undefined\<close>; reading any
  field of the parsed record gives what reading it from the exported record gives (an unset
  optional field reads \<^verbatim>\<open>undefined\<close> on both sides). This holds for the simplified elements
  that IfcLoader.tsx exports and for the elements that IfcBuiltElementsLoader.tsx serializes
  as they are.
\<close>

theorem export_roundtrip:
  "(exportElements elementsM = Some v \<and> json_carries v \<longrightarrow>
      json_roundtrip v = JArr (map (\<lambda>e. defined_part (exportElement e)) elementsM)
    \<and> (\<forall>e \<in> set elementsM. \<forall>k.
          get (defined_part (exportElement e)) k = defined_part (get (exportElement e) k)))
   \<and> (downloadElements elements = Some w \<and> json_carries w \<longrightarrow>
      json_roundtrip w = JArr (map (\<lambda>e. defined_part (js_IfcModelElement e)) elements)
    \<and> (\<forall>e \<in> set elements. \<forall>k.
          get (defined_part (js_IfcModelElement e)) k
            = defined_part (get (js_IfcModelElement e) k)))"
proof -
  have a: "get (defined_part (exportElement e)) k = defined_part (get (exportElement e) k)"
    for e k
  proof -
    obtain fs where fs: "exportElement e = JObj fs" by (simp add: exportElement_def)
    from get_defined_part [OF distinct_exportElement [OF fs], of k] show ?thesis
      by (simp only: fs)
  qed
  have b: "get (defined_part (js_IfcModelElement e)) k
            = defined_part (get (js_IfcModelElement e) k)" for e k
  proof -
    obtain fs where fs: "js_IfcModelElement e = JObj fs" by (simp add: js_IfcModelElement_def)
    from get_defined_part [OF distinct_js_IfcModelElement [OF fs], of k] show ?thesis
      by (simp only: fs)
  qed
  have c: "json_roundtrip (JArr xs) = JArr (map defined_part xs)" if "json_carries (JArr xs)"
    for xs
    using roundtrip_defined(1) [OF that] by (simp add: defined_items_map)
  show ?thesis
    using a b c
    by (auto simp: exportElements_def downloadElements_def comp_def split: if_splits)
qed


theorem export_roundtrip_witness:
  "map_option json_carries
     (exportElements (extractModelElementsM sample_env sample_api 0 True sample_tree))
     = Some True
   \<and> map_option json_roundtrip
       (exportElements (extractModelElementsM sample_env sample_api 0 True sample_tree))
     = Some (JArr (map (\<lambda>e. defined_part (exportElement e))
                (extractModelElementsM sample_env sample_api 0 True sample_tree)))
   \<and> map (\<lambda>e. (em_id e, em_globalId e,
               map (\<lambda>s. map pv_value (ps_properties s)) (em_propertySets e)))
       (extractModelElementsM sample_env sample_api 0 True sample_tree)
     = [(1, None, []), (2, None, []), (3, None, [[JNum (Fin 12.5)]])]"
proof -
  let ?els = "extractModelElementsM sample_env sample_api 0 True sample_tree"
  have l: "length ?els \<noteq> 0" by code_simp
  have c: "json_carries (JArr (map exportElement ?els))" by code_simp
  have v: "map (\<lambda>e. (em_id e, em_globalId e,
               map (\<lambda>s. map pv_value (ps_properties s)) (em_propertySets e))) ?els
     = [(1, None, []), (2, None, []), (3, None, [[JNum (Fin 12.5)]])]"
    by code_simp
  from l have e: "exportElements ?els = Some (JArr (map exportElement ?els))"
    by (simp add: exportElements_def)
  from export_roundtrip [of ?els "JArr (map exportElement ?els)"] e c
  have "json_roundtrip (JArr (map exportElement ?els))
      = JArr (map (\<lambda>e. defined_part (exportElement e)) ?els)"
    by blast
  with e c v show ?thesis by simp
qed

text \<open>
  C9 as stated fails. A volume that the engine reports as the text \<^verbatim>\<open>n/a\<close> is normalized to
  the number \<open>NaN\<close>, which JSON writes as \<^verbatim>\<open>null\<close>: the parsed record has \<^verbatim>\<open>null\<close> where the
  original has \<open>NaN\<close>; and it has no \<^verbatim>\<open>globalId\<close> field where the original has one that holds
  \<^verbatim>\<open>undefined\<close>.
\<close>

theorem export_roundtrip_changes:
  "exportElements (extractModelElementsM sample_env text_volume_api 0 False sample_tree)
     = Some (JArr
         [JObj [(''id'', JNum (Fin 2)), (''type'', JStr ''IFCWALL''),
                (''typeName'', JStr ''IFCWALL''), (''name'', JStr ''Element #2''),
                (''globalId'', JUndefined),
                (''propertySets'',
                   JArr [JObj [(''name'', JStr ''BaseQuantities''),
                               (''properties'',
                                  JArr [JObj [(''name'', JStr ''NetVolume''),
                                              (''value'', JNum NaN),
                                              (''type'', JStr ''number'')]])]]),
                (''materials'', JArr []), (''structuredMaterials'', JArr [])]])
   \<and> map_option json_roundtrip
       (exportElements (extractModelElementsM sample_env text_volume_api 0 False sample_tree))
     = Some (JArr
         [JObj [(''id'', JNum (Fin 2)), (''type'', JStr ''IFCWALL''),
                (''typeName'', JStr ''IFCWALL''), (''name'', JStr ''Element #2''),
                (''propertySets'',
                   JArr [JObj [(''name'', JStr ''BaseQuantities''),
                               (''properties'',
                                  JArr [JObj [(''name'', JStr ''NetVolume''),
                                              (''value'', JNull),
                                              (''type'', JStr ''number'')]])]]),
                (''materials'', JArr []), (''structuredMaterials'', JArr [])]])"
  by code_simp

end
